theory Spec2Isabelle
  imports Complex_Main "HOL-Library.Multiset"
begin

unbundle bit_operations_syntax

section \<open>Urho enums and float comparison\<close>

text \<open>
  The element flags of \<^verbatim>\<open>export_urho.py\<close>. Masks are Python ints that only ever hold
  these bits, so they are natural numbers with the bitwise operations of HOL.
  Python floats are modelled by the reals; rounding is part of the model only where the
  blend weights are summed and divided.
\<close>

definition ELEMENT_POSITION :: nat where "ELEMENT_POSITION = 0x0001"
definition ELEMENT_NORMAL :: nat where "ELEMENT_NORMAL = 0x0002"
definition ELEMENT_COLOR :: nat where "ELEMENT_COLOR = 0x0004"
definition ELEMENT_UV1 :: nat where "ELEMENT_UV1 = 0x0008"
definition ELEMENT_UV2 :: nat where "ELEMENT_UV2 = 0x0010"
definition ELEMENT_TANGENT :: nat where "ELEMENT_TANGENT = 0x0080"
definition ELEMENT_BWEIGHTS :: nat where "ELEMENT_BWEIGHTS = 0x0100"
definition ELEMENT_BINDICES :: nat where "ELEMENT_BINDICES = 0x0200"
definition ELEMENT_BLEND :: nat where "ELEMENT_BLEND = 0x0300"

definition TRACK_POSITION :: nat where "TRACK_POSITION = 0x0001"
definition TRACK_ROTATION :: nat where "TRACK_ROTATION = 0x0002"
definition TRACK_SCALE :: nat where "TRACK_SCALE = 0x0004"

definition TRIANGLE_LIST :: nat where "TRIANGLE_LIST = 0"

definition MAX_SKIN_MATRICES :: nat where "MAX_SKIN_MATRICES = 64"

definition EPSILON :: real where "EPSILON = 1 / 1000000"

text \<open>The exceptions the modelled code can raise.\<close>

datatype error = MaskError nat nat nat | AttributeError | KeyError | IndexError
  | TypeError | UnboundLocalError | StructError

text \<open>
  A \<^verbatim>\<open>Vector\<close>, a tuple of floats and a colour are sequences; \<^verbatim>\<open>zip\<close>, \<^verbatim>\<open>sum\<close>
  and indexing treat them alike, so all are lists. An optional field is \<^verbatim>\<open>None\<close> or a
  sequence, and \<^verbatim>\<open>if field:\<close> holds for a sequence that is not empty.
\<close>

type_synonym Vector = "real list"

definition truthy :: "'a list option \<Rightarrow> bool" where
  "truthy v = (case v of None \<Rightarrow> False | Some l \<Rightarrow> l \<noteq> [])"

section \<open>Model classes\<close>

text \<open>
  Modelled from the spec: the source vertex of the intermediate representation (class
  \<^verbatim>\<open>TVertex\<close> of the extraction module, which is not part of the exporter file), with
  exactly the fields that \<^verbatim>\<open>UrhoVertex.__init__\<close> and \<^verbatim>\<open>UrhoExport\<close> read.
\<close>

record TVertex =
  tv_blenderIndex :: "nat option"
  tv_pos :: "Vector option"
  tv_normal :: "Vector option"
  tv_color :: "nat list option"
  tv_uv :: "Vector option"
  tv_uv2 :: "Vector option"
  tv_tangent :: "Vector option"
  tv_weights :: "(nat \<times> real) list option"

record UrhoVertex =
  index :: "nat option"
  pos :: "Vector option"
  normal :: "Vector option"
  color :: "nat list option"
  uv :: "Vector option"
  uv2 :: "Vector option"
  tangent :: "Vector option"
  weights :: "(nat \<times> real) list"

record UrhoVertexBuffer =
  elementMask :: "nat option"
  morphMinIndex :: "nat option"
  morphMaxIndex :: "nat option"
  vertices :: "nat list"

record UrhoIndexBuffer =
  indexSize :: nat
  indexes :: "nat list"

text \<open>
  \<^verbatim>\<open>UrhoVertexBuffer.vertices\<close> is a Python list of references to \<^verbatim>\<open>UrhoVertex\<close>
  objects, and the exporter later mutates the weights of these objects in place. The
  objects therefore live in a store (a list indexed by address, extended on allocation),
  and a buffer holds addresses.
\<close>

type_synonym store = "UrhoVertex list"

subsection \<open>Lines 169-183: the blend weights of a new vertex\<close>

text \<open>
  \<^verbatim>\<open>sorted(..., key = itemgetter(1), reverse = True)\<close> is a stable sort by decreasing
  weight: \<^const>\<open>sort_key\<close> on the negated weight. The loop over \<^verbatim>\<open>range(4)\<close> appends
  one tuple per round.

  The weights are the only floats whose rounding a statement below depends on, so here the
  two float operations are parameters: \<open>fadd\<close> is the addition of two doubles and \<open>fdiv\<close>
  their division. \<^verbatim>\<open>sum\<close> starts from 0 and adds the elements from left to right. All a
  statement assumes of the operations is the standard model of IEEE arithmetic, a relative
  error of at most the unit roundoff of doubles (\<open>floatAdd\<close>, \<open>floatDiv\<close>); the zero test of
  line 179 is on the sum as \<open>fadd\<close> computes it.
\<close>

definition sortedList :: "(nat \<times> real) list \<Rightarrow> (nat \<times> real) list" where
  "sortedList ws = sort_key (\<lambda>t. - snd t) ws"




definition totalWeightF :: "(real \<Rightarrow> real \<Rightarrow> real) \<Rightarrow> (nat \<times> real) list \<Rightarrow> real" where
  "totalWeightF fadd ws = foldl fadd 0 (map snd (take 4 (sortedList ws)))"

definition weightTupleF ::
  "(real \<Rightarrow> real \<Rightarrow> real) \<Rightarrow> (real \<Rightarrow> real \<Rightarrow> real) \<Rightarrow> (nat \<times> real) list \<Rightarrow> nat
     \<Rightarrow> nat \<times> real" where
  "weightTupleF fadd fdiv ws i =
     (if totalWeightF fadd ws \<noteq> 0 \<and> i < length (sortedList ws)
      then (fst (sortedList ws ! i), fdiv (snd (sortedList ws ! i)) (totalWeightF fadd ws))
      else (0, 0))"

definition initWeightsF ::
  "(real \<Rightarrow> real \<Rightarrow> real) \<Rightarrow> (real \<Rightarrow> real \<Rightarrow> real) \<Rightarrow> (nat \<times> real) list option
     \<Rightarrow> (nat \<times> real) list" where
  "initWeightsF fadd fdiv w =
     (case w of None \<Rightarrow> [] | Some ws \<Rightarrow> map (weightTupleF fadd fdiv ws) [0..<4])"

subsection \<open>Lines 139-191: \<^verbatim>\<open>UrhoVertex.__init__\<close>\<close>

definition initMask :: "TVertex \<Rightarrow> nat" where
  "initMask t =
     (let mask = 0;
          mask = (if truthy (tv_pos t) then mask OR ELEMENT_POSITION else mask);
          mask = (if truthy (tv_normal t) then mask OR ELEMENT_NORMAL else mask);
          mask = (if truthy (tv_color t) then mask OR ELEMENT_COLOR else mask);
          mask = (if truthy (tv_uv t) then mask OR ELEMENT_UV1 else mask);
          mask = (if truthy (tv_uv2 t) then mask OR ELEMENT_UV2 else mask);
          mask = (if truthy (tv_tangent t) then mask OR ELEMENT_TANGENT else mask);
          mask = (if tv_weights t \<noteq> None then mask OR ELEMENT_BLEND else mask)
      in mask)"

definition initFieldsF ::
  "(real \<Rightarrow> real \<Rightarrow> real) \<Rightarrow> (real \<Rightarrow> real \<Rightarrow> real) \<Rightarrow> TVertex \<Rightarrow> UrhoVertex" where
  "initFieldsF fadd fdiv t =
     \<lparr> index = None, pos = tv_pos t, normal = tv_normal t, color = tv_color t,
       uv = tv_uv t, uv2 = tv_uv2 t, tangent = tv_tangent t,
       weights = initWeightsF fadd fdiv (tv_weights t) \<rparr>"

text \<open>
  No statement about the geometry loop depends on how the weights are rounded, so the loop
  builds its vertices with exact addition and division.
\<close>

definition initFields :: "TVertex \<Rightarrow> UrhoVertex" where
  "initFields t = initFieldsF (+) (/) t"

text \<open>
  The constructor updates the buffer's mask before it returns or raises, so the buffer is
  part of the result in both cases. When it raises, the object under construction is lost
  (the caller's assignment does not happen).
\<close>

definition UrhoVertex_init ::
  "TVertex \<Rightarrow> UrhoVertexBuffer \<Rightarrow> (error + UrhoVertex) \<times> UrhoVertexBuffer" where
  "UrhoVertex_init t b =
     (let mask = initMask t in
      case elementMask b of
        None \<Rightarrow> (Inr (initFields t), b\<lparr>elementMask := Some mask\<rparr>)
      | Some oldMask \<Rightarrow>
          if oldMask \<noteq> mask
          then (Inl (MaskError oldMask mask (oldMask AND mask)),
                b\<lparr>elementMask := Some (oldMask AND mask)\<rparr>)
          else (Inr (initFields t), b))"

subsection \<open>Lines 64-101: float comparison helpers\<close>

text \<open>
  \<^verbatim>\<open>INFINITY = float("+inf")\<close> is the only infinite value the error metric handles; a
  metric value is a real number or \<^verbatim>\<open>INFINITY\<close>. The vectors compared are the positions,
  normals (three components) and texture coordinates (two components) of the extraction
  module, so \<^verbatim>\<open>v1.dot(v2)\<close> always has operands of one size.
\<close>

datatype efloat = Finite real | INFINITY

fun ef_less :: "efloat \<Rightarrow> efloat \<Rightarrow> bool" where
  "ef_less (Finite a) (Finite b) = (a < b)"
| "ef_less (Finite a) INFINITY = True"
| "ef_less INFINITY _ = False"

fun ef_add :: "efloat \<Rightarrow> real \<Rightarrow> efloat" where
  "ef_add (Finite a) b = Finite (a + b)"
| "ef_add INFINITY b = INFINITY"

definition FloatListAlmostEqual :: "Vector option \<Rightarrow> Vector option \<Rightarrow> bool" where
  "FloatListAlmostEqual v1 v2 =
     (case v1 of
        None \<Rightarrow> v2 = None
      | Some l1 \<Rightarrow>
          (case v2 of
             None \<Rightarrow> False
           | Some l2 \<Rightarrow> list_all (\<lambda>(e1, e2). \<not> \<bar>e1 - e2\<bar> > EPSILON) (zip l1 l2)))"

definition FloatListEqualError :: "Vector option \<Rightarrow> Vector option \<Rightarrow> efloat" where
  "FloatListEqualError v1 v2 =
     (case v1 of
        None \<Rightarrow> (case v2 of None \<Rightarrow> Finite 0 | Some l2 \<Rightarrow> INFINITY)
      | Some l1 \<Rightarrow>
          (case v2 of
             None \<Rightarrow> INFINITY
           | Some l2 \<Rightarrow> Finite (sum_list (map (\<lambda>(e1, e2). \<bar>e1 - e2\<bar>) (zip l1 l2)))))"

definition dot :: "Vector \<Rightarrow> Vector \<Rightarrow> real" where
  "dot l1 l2 = sum_list (map (\<lambda>(e1, e2). e1 * e2) (zip l1 l2))"

definition VectorDotProduct :: "Vector option \<Rightarrow> Vector option \<Rightarrow> real" where
  "VectorDotProduct v1 v2 =
     (case v1 of
        None \<Rightarrow> (case v2 of None \<Rightarrow> 1 | Some l2 \<Rightarrow> - 1)
      | Some l1 \<Rightarrow> (case v2 of None \<Rightarrow> - 1 | Some l2 \<Rightarrow> dot l1 l2))"

subsection \<open>Lines 199-229: comparing two vertices\<close>

definition AlmostEqual :: "UrhoVertex \<Rightarrow> UrhoVertex \<Rightarrow> bool" where
  "AlmostEqual self other =
     (if \<not> FloatListAlmostEqual (pos self) (pos other) then False
      else if \<not> FloatListAlmostEqual (normal self) (normal other) then False
      else if color self \<noteq> color other then False
      else if \<not> FloatListAlmostEqual (uv self) (uv other) then False
      else if \<not> FloatListAlmostEqual (uv2 self) (uv2 other) then False
      else True)"

definition LodError :: "UrhoVertex \<Rightarrow> UrhoVertex \<Rightarrow> efloat" where
  "LodError self other =
     (if \<not> FloatListAlmostEqual (pos self) (pos other) then INFINITY
      else
        let ncos = VectorDotProduct (normal self) (normal other) in
        if ncos < cos (30 / 180 * pi) then INFINITY
        else ef_add (ef_add (FloatListEqualError (uv self) (uv other)) 1) (- ncos))"

text \<open>
  \<^verbatim>\<open>__hash__\<close> combines the hashes of the three position components. The hash of a float
  is a function of the Python runtime, taken as the parameter \<open>H\<close>.
\<close>

definition vertex_hash :: "(real \<Rightarrow> int) \<Rightarrow> UrhoVertex \<Rightarrow> int" where
  "vertex_hash H v =
     (case pos v of
        None \<Rightarrow> 0
      | Some p \<Rightarrow> if p \<noteq> [] then 0 XOR (H (p ! 0) XOR H (p ! 1) XOR H (p ! 2)) else 0)"

subsection \<open>Lines 980-1004: looking a vertex up in its hash bucket\<close>

text \<open>
  \<open>verts\<close> is \<^verbatim>\<open>vertexBuffer.vertices\<close> read through the store: the vertex at an index
  of the buffer. The strict search returns the first index of the bucket whose vertex is
  almost equal; the relaxed search of the later LODs keeps the running best error and the
  index that reached it.
\<close>

fun strictSearch :: "(nat \<Rightarrow> UrhoVertex) \<Rightarrow> UrhoVertex \<Rightarrow> nat list \<Rightarrow> nat option" where
  "strictSearch verts uVertex [] = None"
| "strictSearch verts uVertex (ivl # l) =
     (if AlmostEqual (verts ivl) uVertex then Some ivl else strictSearch verts uVertex l)"

fun lodLoop ::
  "(nat \<Rightarrow> UrhoVertex) \<Rightarrow> UrhoVertex \<Rightarrow> nat list \<Rightarrow> efloat \<times> nat option \<Rightarrow> efloat \<times> nat option"
  where
  "lodLoop verts uVertex [] acc = acc"
| "lodLoop verts uVertex (ivl # l) (bestLodError, uVertexIndex) =
     (let lodError = LodError (verts ivl) uVertex in
      if ef_less lodError bestLodError
      then lodLoop verts uVertex l (lodError, Some ivl)
      else lodLoop verts uVertex l (bestLodError, uVertexIndex))"

definition lodSearch :: "(nat \<Rightarrow> UrhoVertex) \<Rightarrow> UrhoVertex \<Rightarrow> nat list \<Rightarrow> nat option" where
  "lodSearch verts uVertex l = snd (lodLoop verts uVertex l (INFINITY, None))"

text \<open>
  Lines 998-1004: a vertex that was not found is appended to the buffer and its new index
  to the bucket. The result is the index, the buffer's vertex list, the bucket and whether
  the warning flag is raised by this vertex.
\<close>

definition placeVertex ::
  "nat \<Rightarrow> nat option \<Rightarrow> nat \<Rightarrow> nat list \<Rightarrow> nat list \<Rightarrow> nat \<times> nat list \<times> nat list \<times> bool" where
  "placeVertex i uVertexIndex addr verts uVerticesMapList =
     (case uVertexIndex of
        None \<Rightarrow> (length verts, verts @ [addr], uVerticesMapList @ [length verts], i \<noteq> 0)
      | Some k \<Rightarrow> (k, verts, uVerticesMapList, False))"

section \<open>The exporter's input and state\<close>

text \<open>
  Modelled from the spec: the per-geometry LOD triangle sets of the intermediate
  representation (classes \<^verbatim>\<open>TLodLevel\<close>, \<^verbatim>\<open>TGeometry\<close> of the extraction module,
  not part of the exporter file). \<open>tl_indexSet\<close> is the Python set of source vertex indices,
  given as the list of its elements in the order the \<^verbatim>\<open>for\<close> loop visits them, without
  repetition; a triangle is a tuple of vertex indices.
\<close>

record TLodLevel =
  tl_distance :: real
  tl_indexSet :: "nat list"
  tl_triangleList :: "nat list list"

record TGeometry =
  tg_lodLevels :: "TLodLevel list"

record UrhoExportOptions =
  splitSubMeshes :: bool
  useStrictLods :: bool

record UrhoLodLevel =
  lod_distance :: real
  lod_primitiveType :: nat
  lod_vertexBuffer :: nat
  lod_indexBuffer :: nat
  lod_startIndex :: nat
  lod_countIndex :: nat

record UrhoGeometry =
  boneMap :: "nat list"
  lodLevels :: "UrhoLodLevel list"
  center :: Vector

text \<open>
  The state of the geometry loop of \<^verbatim>\<open>UrhoExport\<close>. The local variable
  \<^verbatim>\<open>vertexBuffer\<close> is \<^verbatim>\<open>None\<close> or refers to the last element of
  \<^verbatim>\<open>uModel.vertexBuffers\<close>, so the model keeps the elements before the last one
  (\<open>vertexBuffersDone\<close>) and the variable; likewise for the index buffers. \<open>uVertex\<close> is
  the local variable of that name: the address of the last vertex that was constructed
  without an exception. \<open>boundingBox\<close> is \<^verbatim>\<open>None\<close> for both corners or the pair of
  corners.
\<close>

record exportState =
  store :: store
  vertexBuffersDone :: "UrhoVertexBuffer list"
  vertexBuffer :: "UrhoVertexBuffer option"
  indexBuffersDone :: "UrhoIndexBuffer list"
  indexBuffer :: "UrhoIndexBuffer option"
  geometries :: "UrhoGeometry list"
  boundingBox :: "(Vector \<times> Vector) option"
  uVertex :: "nat option"
  uVerticesMap :: "int \<Rightarrow> nat list option"
  modelIndexMap :: "nat \<Rightarrow> (nat \<times> nat) set option"
  errorsIndices :: "nat set"

definition modelVertexBuffers :: "exportState \<Rightarrow> UrhoVertexBuffer list" where
  "modelVertexBuffers s =
     vertexBuffersDone s @ (case vertexBuffer s of None \<Rightarrow> [] | Some b \<Rightarrow> [b])"

definition modelIndexBuffers :: "exportState \<Rightarrow> UrhoIndexBuffer list" where
  "modelIndexBuffers s =
     indexBuffersDone s @ (case indexBuffer s of None \<Rightarrow> [] | Some b \<Rightarrow> [b])"

definition newVertexBuffer :: UrhoVertexBuffer where
  "newVertexBuffer =
     \<lparr> elementMask = None, morphMinIndex = None, morphMaxIndex = None, vertices = [] \<rparr>"

definition newIndexBuffer :: UrhoIndexBuffer where
  "newIndexBuffer = \<lparr> indexSize = 0, indexes = [] \<rparr>"

definition initialState :: "nat set \<Rightarrow> exportState" where
  "initialState errs =
     \<lparr> store = [], vertexBuffersDone = [], vertexBuffer = None, indexBuffersDone = [],
       indexBuffer = None, geometries = [], boundingBox = None, uVertex = None,
       uVerticesMap = Map.empty, modelIndexMap = Map.empty, errorsIndices = errs \<rparr>"

subsection \<open>Lines 113-129: \<^verbatim>\<open>BoundingBox.merge\<close>\<close>

definition merge :: "(Vector \<times> Vector) option \<Rightarrow> Vector \<Rightarrow> (Vector \<times> Vector) option" where
  "merge self point =
     (case self of
        None \<Rightarrow> Some (point, point)
      | Some (mn, mx) \<Rightarrow>
          Some ([if point ! 0 < mn ! 0 then point ! 0 else mn ! 0,
                 if point ! 1 < mn ! 1 then point ! 1 else mn ! 1,
                 if point ! 2 < mn ! 2 then point ! 2 else mn ! 2],
                [if point ! 0 > mx ! 0 then point ! 0 else mx ! 0,
                 if point ! 1 > mx ! 1 then point ! 1 else mx ! 1,
                 if point ! 2 > mx ! 2 then point ! 2 else mx ! 2]))"

subsection \<open>Lines 954-1032: adding one source vertex to the vertex buffer\<close>

text \<open>
  The loop body for one element of \<^verbatim>\<open>tLodLevel.indexSet\<close>. Besides the state it
  updates the LOD's \<^verbatim>\<open>indexMap\<close> and \<^verbatim>\<open>warningNewVertices\<close>. When the constructor
  raises \<^verbatim>\<open>MaskError\<close> the handler records the source index and the body goes on with
  the variable \<^verbatim>\<open>uVertex\<close> as the previous round left it. Log calls change nothing
  that is modelled.
\<close>

definition constructed :: "TVertex \<Rightarrow> error + UrhoVertex \<Rightarrow> exportState \<Rightarrow> exportState" where
  "constructed tVertex r s =
     (case r of
        Inr v \<Rightarrow> s\<lparr>store := store s @ [v], uVertex := Some (length (store s))\<rparr>
      | Inl e \<Rightarrow>
          (case tv_blenderIndex tVertex of
             None \<Rightarrow> s
           | Some b \<Rightarrow> s\<lparr>errorsIndices := insert b (errorsIndices s)\<rparr>))"

definition mergePosition ::
  "UrhoVertexBuffer \<Rightarrow> UrhoVertex \<Rightarrow> (Vector \<times> Vector) option
     \<Rightarrow> error + (Vector \<times> Vector) option" where
  "mergePosition vb u bb =
     (case elementMask vb of
        None \<Rightarrow> Inl TypeError
      | Some m \<Rightarrow>
          if m AND ELEMENT_POSITION \<noteq> 0
          then (case pos u of None \<Rightarrow> Inl AttributeError | Some p \<Rightarrow> Inr (merge bb p))
          else Inr bb)"

definition addVertex ::
  "(real \<Rightarrow> int) \<Rightarrow> UrhoExportOptions \<Rightarrow> TVertex list \<Rightarrow> nat \<Rightarrow> nat
     \<Rightarrow> exportState \<times> (nat \<Rightarrow> nat option) \<times> bool
     \<Rightarrow> error + exportState \<times> (nat \<Rightarrow> nat option) \<times> bool" where
  "addVertex H opts verticesList i tVertexIndex st =
     (case st of (s, indexMap, warningNewVertices) \<Rightarrow>
      if \<not> tVertexIndex < length verticesList then Inl IndexError
      else
        (case vertexBuffer s of
          None \<Rightarrow> Inl AttributeError
        | Some vb \<Rightarrow>
            let tVertex = verticesList ! tVertexIndex;
                r = UrhoVertex_init tVertex vb;
                vb1 = snd r;
                s1 = constructed tVertex (fst r) s
            in
            (case uVertex s1 of
              None \<Rightarrow> Inl UnboundLocalError
            | Some addr \<Rightarrow>
                let u = store s1 ! addr;
                    uVertexHash = vertex_hash H u;
                    uVerticesMapList =
                      (case uVerticesMap s1 uVertexHash of None \<Rightarrow> [] | Some l \<Rightarrow> l);
                    verts = (\<lambda>ivl. store s1 ! (vertices vb1 ! ivl));
                    uVertexIndex =
                      (if i = 0 \<or> useStrictLods opts
                       then strictSearch verts u uVerticesMapList
                       else lodSearch verts u uVerticesMapList);
                    placed = placeVertex i uVertexIndex addr (vertices vb1) uVerticesMapList;
                    k = fst placed;
                    vb2 = vb1\<lparr>vertices := fst (snd placed)\<rparr>;
                    indexMap1 =
                      (if indexMap tVertexIndex = None then indexMap(tVertexIndex \<mapsto> k)
                       else indexMap)
                in
                (case mergePosition vb2 u (boundingBox s1) of
                  Inl e \<Rightarrow> Inl e
                | Inr bb \<Rightarrow>
                    Inr (s1\<lparr>vertexBuffer := Some vb2,
                            uVerticesMap :=
                              (uVerticesMap s1)(uVertexHash \<mapsto> fst (snd (snd placed))),
                            boundingBox := bb\<rparr>,
                         indexMap1,
                         warningNewVertices \<or> snd (snd (snd placed)))))))"

fun addVertices ::
  "(real \<Rightarrow> int) \<Rightarrow> UrhoExportOptions \<Rightarrow> TVertex list \<Rightarrow> nat \<Rightarrow> nat list
     \<Rightarrow> exportState \<times> (nat \<Rightarrow> nat option) \<times> bool
     \<Rightarrow> error + exportState \<times> (nat \<Rightarrow> nat option) \<times> bool" where
  "addVertices H opts verticesList i [] st = Inr st"
| "addVertices H opts verticesList i (tVertexIndex # rest) st =
     (case addVertex H opts verticesList i tVertexIndex st of
        Inl e \<Rightarrow> Inl e
      | Inr st1 \<Rightarrow> addVertices H opts verticesList i rest st1)"

subsection \<open>Lines 1037-1049: adding the LOD's index map to the model's map\<close>

definition addToModelIndexMap ::
  "nat \<Rightarrow> (nat \<Rightarrow> nat option) \<Rightarrow> (nat \<Rightarrow> (nat \<times> nat) set option)
     \<Rightarrow> (nat \<Rightarrow> (nat \<times> nat) set option)" where
  "addToModelIndexMap vbIndex indexMap m =
     (\<lambda>oldIndex.
        case indexMap oldIndex of
          None \<Rightarrow> m oldIndex
        | Some newIndex \<Rightarrow>
            Some (insert (vbIndex, newIndex)
                    (case m oldIndex of None \<Rightarrow> {} | Some vbviSet \<Rightarrow> vbviSet)))"

subsection \<open>Lines 1051-1064: index buffer and geometry center\<close>

text \<open>
  The two nested loops visit the corners of the triangles in order. The accumulator is
  the index list of the index buffer, \<^verbatim>\<open>centerCount\<close> and the local \<^verbatim>\<open>center\<close>.
\<close>

definition addIndex ::
  "store \<Rightarrow> UrhoVertexBuffer \<Rightarrow> (nat \<Rightarrow> nat option) \<Rightarrow> nat \<Rightarrow> nat
     \<Rightarrow> nat list \<times> nat \<times> Vector \<Rightarrow> error + nat list \<times> nat \<times> Vector" where
  "addIndex st vb indexMap i tVertexIndex acc =
     (case acc of (idxs, centerCount, centerSum) \<Rightarrow>
      (case indexMap tVertexIndex of
         None \<Rightarrow> Inl KeyError
       | Some uVertexIndex \<Rightarrow>
           if i = 0
           then (case elementMask vb of
                   None \<Rightarrow> Inl TypeError
                 | Some m \<Rightarrow>
                     if m AND ELEMENT_POSITION \<noteq> 0
                     then (case pos (st ! (vertices vb ! uVertexIndex)) of
                             None \<Rightarrow> Inl TypeError
                           | Some p \<Rightarrow>
                               Inr (idxs @ [uVertexIndex], centerCount + 1,
                                    map (\<lambda>(c, e). c + e) (zip centerSum p)))
                     else Inr (idxs @ [uVertexIndex], centerCount, centerSum))
           else Inr (idxs @ [uVertexIndex], centerCount, centerSum)))"

fun addIndices ::
  "store \<Rightarrow> UrhoVertexBuffer \<Rightarrow> (nat \<Rightarrow> nat option) \<Rightarrow> nat \<Rightarrow> nat list
     \<Rightarrow> nat list \<times> nat \<times> Vector \<Rightarrow> error + nat list \<times> nat \<times> Vector" where
  "addIndices st vb indexMap i [] acc = Inr acc"
| "addIndices st vb indexMap i (tVertexIndex # rest) acc =
     (case addIndex st vb indexMap i tVertexIndex acc of
        Inl e \<Rightarrow> Inl e
      | Inr acc1 \<Rightarrow> addIndices st vb indexMap i rest acc1)"

definition geometryCenter :: "nat \<Rightarrow> nat \<Rightarrow> Vector \<Rightarrow> Vector \<Rightarrow> Vector" where
  "geometryCenter i centerCount centerSum old =
     (if i = 0 \<and> centerCount \<noteq> 0 then map (\<lambda>c. c / real centerCount) centerSum else old)"

subsection \<open>Lines 1066-1088: remapping bone indices\<close>

text \<open>
  \<^verbatim>\<open>boneMap.index(boneIndex)\<close> is the first position of the bone in the map, and raises
  \<^verbatim>\<open>ValueError\<close> when it is absent.
\<close>

fun list_index :: "nat list \<Rightarrow> nat \<Rightarrow> nat option" where
  "list_index [] x = None"
| "list_index (y # ys) x =
     (if y = x then Some 0 else (case list_index ys x of None \<Rightarrow> None | Some k \<Rightarrow> Some (Suc k)))"

definition remapPair :: "nat list \<Rightarrow> nat \<times> real \<Rightarrow> nat list \<times> (nat \<times> real)" where
  "remapPair bm p =
     (case p of (boneIndex, weight) \<Rightarrow>
      (case list_index bm boneIndex of
         Some newBoneIndex \<Rightarrow> (bm, (newBoneIndex, weight))
       | None \<Rightarrow>
           let newBoneIndex = length bm in
           if newBoneIndex < MAX_SKIN_MATRICES then (bm @ [boneIndex], (newBoneIndex, weight))
           else (bm, (0, 0))))"

fun remapWeights :: "nat list \<Rightarrow> (nat \<times> real) list \<Rightarrow> nat list \<times> (nat \<times> real) list" where
  "remapWeights bm [] = (bm, [])"
| "remapWeights bm (p # ps) =
     (let r = remapPair bm p; rs = remapWeights (fst r) ps
      in (fst rs, snd r # snd rs))"

text \<open>
  The outer loop visits the references held by the buffer; each vertex object is read from
  the store and written back with its new weights.
\<close>

fun remapVertices :: "nat list \<Rightarrow> store \<times> nat list \<Rightarrow> store \<times> nat list" where
  "remapVertices [] acc = acc"
| "remapVertices (a # as) (st, bm) =
     (let r = remapWeights bm (weights (st ! a))
      in remapVertices as (st[a := (st ! a)\<lparr>weights := snd r\<rparr>], fst r))"

definition remapBones ::
  "nat \<Rightarrow> UrhoVertexBuffer \<Rightarrow> store \<times> nat list \<Rightarrow> error + store \<times> nat list" where
  "remapBones nBones vb acc =
     (if nBones > MAX_SKIN_MATRICES
      then (case elementMask vb of
              None \<Rightarrow> Inl TypeError
            | Some m \<Rightarrow>
                if m AND ELEMENT_BLEND = ELEMENT_BLEND then Inr (remapVertices (vertices vb) acc)
                else Inr acc)
      else Inr acc)"

subsection \<open>Lines 914-1088: one LOD level of a geometry\<close>

text \<open>
  \<open>nBones\<close> is \<^verbatim>\<open>len(uModel.bones)\<close>, fixed before the geometry loop starts. The
  triple threaded through the LOD loop is the state, the geometry under construction and
  the local \<^verbatim>\<open>center\<close> (named \<open>centerSum\<close> here, since
  \<open>center\<close> is the field of the geometry).
\<close>

definition openBuffers :: "bool \<Rightarrow> nat \<Rightarrow> exportState \<Rightarrow> exportState \<times> nat" where
  "openBuffers useOneBuffer i s =
     (let s1 = (if vertexBuffer s = None \<or> (i = 0 \<and> \<not> useOneBuffer)
                then s\<lparr>vertexBuffersDone := modelVertexBuffers s,
                       vertexBuffer := Some newVertexBuffer,
                       uVerticesMap := Map.empty\<rparr>
                else s)
      in if indexBuffer s1 = None \<or> (i = 0 \<and> \<not> useOneBuffer)
         then (s1\<lparr>indexBuffersDone := modelIndexBuffers s1,
                   indexBuffer := Some newIndexBuffer\<rparr>, 0)
         else (s1, (case indexBuffer s1 of None \<Rightarrow> 0 | Some ib \<Rightarrow> length (indexes ib))))"

definition lodLevelStep ::
  "(real \<Rightarrow> int) \<Rightarrow> UrhoExportOptions \<Rightarrow> nat \<Rightarrow> TVertex list \<Rightarrow> bool \<Rightarrow> nat \<Rightarrow> TLodLevel
     \<Rightarrow> exportState \<times> UrhoGeometry \<times> Vector
     \<Rightarrow> error + exportState \<times> UrhoGeometry \<times> Vector" where
  "lodLevelStep H opts nBones verticesList useOneBuffer i tLodLevel acc =
     (case acc of (s, uGeometry, center0) \<Rightarrow>
      let opened = openBuffers useOneBuffer i s;
          s2 = fst opened;
          uLodLevel =
            \<lparr> lod_distance = tl_distance tLodLevel, lod_primitiveType = TRIANGLE_LIST,
              lod_vertexBuffer = length (modelVertexBuffers s2) - 1,
              lod_indexBuffer = length (modelIndexBuffers s2) - 1,
              lod_startIndex = snd opened,
              lod_countIndex = length (tl_triangleList tLodLevel) * 3 \<rparr>
      in
      (case addVertices H opts verticesList i (tl_indexSet tLodLevel) (s2, Map.empty, False) of
         Inl e \<Rightarrow> Inl e
       | Inr (s3, indexMap, warningNewVertices) \<Rightarrow>
           (case (vertexBuffer s3, indexBuffer s3) of
              (Some vb, Some ib) \<Rightarrow>
                (case addIndices (store s3) vb indexMap i (concat (tl_triangleList tLodLevel))
                        (indexes ib, 0, center0) of
                   Inl e \<Rightarrow> Inl e
                 | Inr (idxs, centerCount, center1) \<Rightarrow>
                     (case remapBones nBones vb (store s3, boneMap uGeometry) of
                        Inl e \<Rightarrow> Inl e
                      | Inr (st, bm) \<Rightarrow>
                          Inr (s3\<lparr>store := st,
                                  indexBuffer := Some (ib\<lparr>indexes := idxs\<rparr>),
                                  modelIndexMap :=
                                    addToModelIndexMap (lod_vertexBuffer uLodLevel) indexMap
                                      (modelIndexMap s3)\<rparr>,
                               uGeometry\<lparr>boneMap := bm,
                                  lodLevels := lodLevels uGeometry @ [uLodLevel],
                                  center :=
                                    geometryCenter i centerCount center1 (center uGeometry)\<rparr>,
                               center1)))
            | _ \<Rightarrow> Inl AttributeError)))"

fun lodLevelsLoop ::
  "(real \<Rightarrow> int) \<Rightarrow> UrhoExportOptions \<Rightarrow> nat \<Rightarrow> TVertex list \<Rightarrow> bool \<Rightarrow> nat \<Rightarrow> TLodLevel list
     \<Rightarrow> exportState \<times> UrhoGeometry \<times> Vector
     \<Rightarrow> error + exportState \<times> UrhoGeometry \<times> Vector" where
  "lodLevelsLoop H opts nBones verticesList useOneBuffer i [] acc = Inr acc"
| "lodLevelsLoop H opts nBones verticesList useOneBuffer i (tLodLevel # rest) acc =
     (case lodLevelStep H opts nBones verticesList useOneBuffer i tLodLevel acc of
        Inl e \<Rightarrow> Inl e
      | Inr acc1 \<Rightarrow> lodLevelsLoop H opts nBones verticesList useOneBuffer (Suc i) rest acc1)"

subsection \<open>Lines 877-1088: the buffer policy and the geometry loop\<close>

definition newGeometry :: UrhoGeometry where
  "newGeometry = \<lparr> boneMap = [], lodLevels = [], center = [0, 0, 0] \<rparr>"

definition geometryStep ::
  "(real \<Rightarrow> int) \<Rightarrow> UrhoExportOptions \<Rightarrow> nat \<Rightarrow> TVertex list \<Rightarrow> bool \<Rightarrow> TGeometry
     \<Rightarrow> exportState \<Rightarrow> error + exportState" where
  "geometryStep H opts nBones verticesList useOneBuffer tGeometry s =
     (case lodLevelsLoop H opts nBones verticesList useOneBuffer 0 (tg_lodLevels tGeometry)
             (s, newGeometry, [0, 0, 0]) of
        Inl e \<Rightarrow> Inl e
      | Inr (s1, uGeometry, center1) \<Rightarrow> Inr (s1\<lparr>geometries := geometries s1 @ [uGeometry]\<rparr>))"

fun geometriesLoop ::
  "(real \<Rightarrow> int) \<Rightarrow> UrhoExportOptions \<Rightarrow> nat \<Rightarrow> TVertex list \<Rightarrow> bool \<Rightarrow> TGeometry list
     \<Rightarrow> exportState \<Rightarrow> error + exportState" where
  "geometriesLoop H opts nBones verticesList useOneBuffer [] s = Inr s"
| "geometriesLoop H opts nBones verticesList useOneBuffer (tGeometry # rest) s =
     (case geometryStep H opts nBones verticesList useOneBuffer tGeometry s of
        Inl e \<Rightarrow> Inl e
      | Inr s1 \<Rightarrow> geometriesLoop H opts nBones verticesList useOneBuffer rest s1)"

definition maxLodVertices :: "TGeometry list \<Rightarrow> nat" where
  "maxLodVertices geometriesList =
     fold (\<lambda>tGeometry m.
             fold (\<lambda>tLodLevel m.
                     if length (tl_indexSet tLodLevel) > m then length (tl_indexSet tLodLevel)
                     else m)
               (tg_lodLevels tGeometry) m)
       geometriesList 0"

definition useOneBuffer :: "UrhoExportOptions \<Rightarrow> TVertex list \<Rightarrow> TGeometry list \<Rightarrow> bool" where
  "useOneBuffer opts verticesList geometriesList =
     (if splitSubMeshes opts
         \<or> (length verticesList > 65535 \<and> maxLodVertices geometriesList \<le> 65535)
      then False else True)"

definition exportGeometries ::
  "(real \<Rightarrow> int) \<Rightarrow> UrhoExportOptions \<Rightarrow> nat \<Rightarrow> TVertex list \<Rightarrow> TGeometry list \<Rightarrow> nat set
     \<Rightarrow> error + exportState" where
  "exportGeometries H opts nBones verticesList geometriesList errs =
     geometriesLoop H opts nBones verticesList
       (useOneBuffer opts verticesList geometriesList) geometriesList (initialState errs)"

subsection \<open>Counting buffers\<close>

text \<open>
  Notions used to state how many buffers the geometry loop opens. The two current buffers
  exist together and the model has as many index buffers as vertex buffers; \<open>nonEmpty\<close>
  keeps the geometries that have at least one LOD; \<open>buffersFor\<close> is the number of buffers
  opened after the geometries of a list, under either policy; \<open>allocated\<close> says that the
  state has these buffers, one geometry per source geometry with as many LODs, and that the
  LODs of each geometry refer to the last pair of buffers opened up to that geometry.
\<close>

definition buffersPaired :: "exportState \<Rightarrow> bool" where
  "buffersPaired s \<longleftrightarrow>
     (vertexBuffer s = None \<longleftrightarrow> indexBuffer s = None)
     \<and> length (modelVertexBuffers s) = length (modelIndexBuffers s)"

definition nonEmpty :: "TGeometry list \<Rightarrow> TGeometry list" where
  "nonEmpty gl = filter (\<lambda>g. tg_lodLevels g \<noteq> []) gl"

definition buffersFor :: "bool \<Rightarrow> TGeometry list \<Rightarrow> nat" where
  "buffersFor uob gl = (if uob then min 1 (length (nonEmpty gl)) else length (nonEmpty gl))"

definition allocated :: "bool \<Rightarrow> TGeometry list \<Rightarrow> exportState \<Rightarrow> bool" where
  "allocated uob gl s \<longleftrightarrow>
     buffersPaired s
     \<and> (vertexBuffer s = None \<longleftrightarrow> nonEmpty gl = [])
     \<and> length (modelVertexBuffers s) = buffersFor uob gl
     \<and> length (geometries s) = length gl
     \<and> (\<forall>gi < length gl. 
           length (lodLevels (geometries s ! gi)) = length (tg_lodLevels (gl ! gi))
           \<and> (\<forall>l \<in> set (lodLevels (geometries s ! gi)).
               lod_vertexBuffer l = buffersFor uob (take (Suc gi) gl) - 1
               \<and> lod_indexBuffer l = buffersFor uob (take (Suc gi) gl) - 1))"

subsection \<open>Observing the exported model\<close>

text \<open>
  \<open>vertexPosition\<close> is the position of the vertex at an index of a vertex buffer (the empty
  list when the vertex has none), \<open>vadd\<close> the addition of vectors that
  \<^const>\<open>addIndex\<close> performs. The \<open>exported\<close> functions read one component of every
  buffer or geometry off the result of the geometry loop. \<open>centroid\<close> follows the words of
  the specification: the mean of a list of points, each counted once.
\<close>

definition vertexPosition :: "store \<Rightarrow> UrhoVertexBuffer \<Rightarrow> nat \<Rightarrow> Vector" where
  "vertexPosition st vb k = (case pos (st ! (vertices vb ! k)) of None \<Rightarrow> [] | Some p \<Rightarrow> p)"

definition vadd :: "Vector \<Rightarrow> Vector \<Rightarrow> Vector" where
  "vadd c p = map (\<lambda>(c, e). c + e) (zip c p)"

definition centroid :: "Vector list \<Rightarrow> Vector" where
  "centroid ps = map (\<lambda>j. (\<Sum>p\<leftarrow>ps. p ! j) / real (length ps)) [0..<3]"

definition exportedCenters :: "error + exportState \<Rightarrow> Vector list" where
  "exportedCenters r = (case r of Inl e \<Rightarrow> [] | Inr s \<Rightarrow> map center (geometries s))"

definition exportedMasks :: "error + exportState \<Rightarrow> nat option list" where
  "exportedMasks r = (case r of Inl e \<Rightarrow> [] | Inr s \<Rightarrow> map elementMask (modelVertexBuffers s))"

definition exportedPositions :: "error + exportState \<Rightarrow> Vector list list" where
  "exportedPositions r =
     (case r of
        Inl e \<Rightarrow> []
      | Inr s \<Rightarrow>
          map (\<lambda>b. map (vertexPosition (store s) b) [0..<length (vertices b)])
            (modelVertexBuffers s))"

definition exportedIndexes :: "error + exportState \<Rightarrow> nat list list" where
  "exportedIndexes r = (case r of Inl e \<Rightarrow> [] | Inr s \<Rightarrow> map indexes (modelIndexBuffers s))"

subsection \<open>Lines 1095-1102: the index size of every index buffer\<close>

definition setIndexSize :: "UrhoIndexBuffer \<Rightarrow> UrhoIndexBuffer" where
  "setIndexSize uIndexBuffer =
     (if length (indexes uIndexBuffer) > 65535 then uIndexBuffer\<lparr>indexSize := 4\<rparr>
      else uIndexBuffer\<lparr>indexSize := 2\<rparr>)"

definition setIndexSizes :: "UrhoIndexBuffer list \<Rightarrow> UrhoIndexBuffer list" where
  "setIndexSizes bs = map setIndexSize bs"

subsection \<open>Lines 1171-1184: the morphed range of a vertex buffer\<close>

text \<open>
  The body that the morph loop runs for every vertex index \<open>uVertexIndex\<close> of the buffer
  that a morph touches, and the default given afterwards to the buffers no morph touched.
\<close>

definition updateMorphRange :: "nat \<Rightarrow> UrhoVertexBuffer \<Rightarrow> error + UrhoVertexBuffer" where
  "updateMorphRange uVertexIndex b =
     (case morphMinIndex b of
        None \<Rightarrow> Inr (b\<lparr>morphMinIndex := Some uVertexIndex, morphMaxIndex := Some uVertexIndex\<rparr>)
      | Some mn \<Rightarrow>
          if uVertexIndex < mn then Inr (b\<lparr>morphMinIndex := Some uVertexIndex\<rparr>)
          else (case morphMaxIndex b of
                  None \<Rightarrow> Inl TypeError
                | Some mx \<Rightarrow>
                    if uVertexIndex > mx then Inr (b\<lparr>morphMaxIndex := Some uVertexIndex\<rparr>)
                    else Inr b))"

fun updateMorphRanges :: "nat list \<Rightarrow> UrhoVertexBuffer \<Rightarrow> error + UrhoVertexBuffer" where
  "updateMorphRanges [] b = Inr b"
| "updateMorphRanges (uVertexIndex # rest) b =
     (case updateMorphRange uVertexIndex b of
        Inl e \<Rightarrow> Inl e
      | Inr b1 \<Rightarrow> updateMorphRanges rest b1)"

definition defaultMorphRange :: "UrhoVertexBuffer \<Rightarrow> UrhoVertexBuffer" where
  "defaultMorphRange b =
     (if morphMinIndex b = None then b\<lparr>morphMinIndex := Some 0, morphMaxIndex := Some 0\<rparr>
      else b)"

subsection \<open>Lines 478-480 and 522-534: the header of a vertex buffer in the model file\<close>

text \<open>
  \<^verbatim>\<open>struct.pack("<I", v)\<close> gives the four bytes of \<open>v\<close>, lowest first, and raises
  \<^verbatim>\<open>struct.error\<close> when \<open>v\<close> is not an integer in range. Bytes are numbers below 256.
\<close>

definition writeUInt :: "int option \<Rightarrow> error + nat list" where
  "writeUInt v =
     (case v of
        None \<Rightarrow> Inl StructError
      | Some n \<Rightarrow>
          if 0 \<le> n \<and> n < 2 ^ 32
          then Inr (map (\<lambda>k. nat (n div 256 ^ k mod 256)) [0..<4])
          else Inl StructError)"

definition morphRangeCount :: "UrhoVertexBuffer \<Rightarrow> error + int" where
  "morphRangeCount b =
     (if morphMaxIndex b \<noteq> Some 0
      then (case (morphMaxIndex b, morphMinIndex b) of
              (Some mx, Some mn) \<Rightarrow> Inr (int mx - int mn + 1)
            | _ \<Rightarrow> Inl TypeError)
      else Inr 0)"

definition writeMorphRangeCount :: "UrhoVertexBuffer \<Rightarrow> error + nat list" where
  "writeMorphRangeCount b =
     (case morphRangeCount b of Inl e \<Rightarrow> Inl e | Inr n \<Rightarrow> writeUInt (Some n))"

definition writeVertexBufferHeader :: "UrhoVertexBuffer \<Rightarrow> error + nat list" where
  "writeVertexBufferHeader b =
     (case writeUInt (Some (int (length (vertices b)))) of
        Inl e \<Rightarrow> Inl e
      | Inr bytes1 \<Rightarrow>
          (case writeUInt (map_option int (elementMask b)) of
             Inl e \<Rightarrow> Inl e
           | Inr bytes2 \<Rightarrow>
               (case writeUInt (map_option int (morphMinIndex b)) of
                  Inl e \<Rightarrow> Inl e
                | Inr bytes3 \<Rightarrow>
                    (case writeMorphRangeCount b of
                       Inl e \<Rightarrow> Inl e
                     | Inr bytes4 \<Rightarrow> Inr (bytes1 @ bytes2 @ bytes3 @ bytes4)))))"

section \<open>Animation classes and the animation loop\<close>

text \<open>
  Modelled from the spec: the per-frame animation tracks of the intermediate representation
  (classes \<^verbatim>\<open>TFrame\<close>, \<^verbatim>\<open>TTrack\<close>, \<^verbatim>\<open>TAnimation\<close> of the extraction module, not part
  of the exporter file), with the fields the exporter reads.
\<close>

record TFrame =
  tf_time :: real
  tf_position :: "Vector option"
  tf_rotation :: "Vector option"
  tf_scale :: "Vector option"

record TTrack =
  tt_name :: string
  tt_frames :: "TFrame list"

record TAnimation =
  ta_name :: string
  ta_tracks :: "TTrack list"

record UrhoKeyframe =
  time :: real
  position :: "Vector option"
  rotation :: "Vector option"
  scale :: "Vector option"

record UrhoTrack =
  track_name :: string
  track_mask :: "nat option"
  keyframes :: "UrhoKeyframe list"

record UrhoAnimation =
  anim_name :: string
  anim_length :: "real option"
  tracks :: "UrhoTrack list"

subsection \<open>Lines 340-363: \<^verbatim>\<open>UrhoKeyframe.__init__\<close>\<close>

definition keyframeMask :: "TFrame \<Rightarrow> nat" where
  "keyframeMask t =
     (let m = 0;
          m = (if truthy (tf_position t) then m OR TRACK_POSITION else m);
          m = (if truthy (tf_rotation t) then m OR TRACK_ROTATION else m);
          m = (if truthy (tf_scale t) then m OR TRACK_SCALE else m)
      in m)"

definition keyframeFields :: "TFrame \<Rightarrow> UrhoKeyframe" where
  "keyframeFields t =
     \<lparr> time = tf_time t, position = tf_position t, rotation = tf_rotation t,
       scale = tf_scale t \<rparr>"

text \<open>
  A track object has the attributes \<^verbatim>\<open>name\<close>, \<^verbatim>\<open>mask\<close> and \<^verbatim>\<open>keyframes\<close> only
  (lines 365-372 and 1194-1196). On a mask mismatch line 361 reads
  \<^verbatim>\<open>uTrack.elementMask\<close>, which raises \<^verbatim>\<open>AttributeError\<close> before line 362 can narrow
  the mask and before line 363 can raise \<^verbatim>\<open>MaskError\<close>.
\<close>

definition UrhoKeyframe_init :: "TFrame \<Rightarrow> UrhoTrack \<Rightarrow> (error + UrhoKeyframe) \<times> UrhoTrack" where
  "UrhoKeyframe_init tKeyframe uTrack =
     (let m = keyframeMask tKeyframe in
      case track_mask uTrack of
        None \<Rightarrow> (Inr (keyframeFields tKeyframe), uTrack\<lparr>track_mask := Some m\<rparr>)
      | Some old \<Rightarrow>
          if old \<noteq> m then (Inl AttributeError, uTrack)
          else (Inr (keyframeFields tKeyframe), uTrack))"

subsection \<open>Lines 1187-1218: the animation loop\<close>

text \<open>
  The handler of line 1201 catches \<^verbatim>\<open>MaskError\<close> only; any other exception leaves
  \<^verbatim>\<open>UrhoExport\<close>. After the handler the local variable \<^verbatim>\<open>uKeyframe\<close> still holds the
  keyframe of the previous round. The pair threaded through the frames is the track and
  that variable.
\<close>

definition addFrame ::
  "TFrame \<Rightarrow> UrhoTrack \<times> UrhoKeyframe option \<Rightarrow> error + UrhoTrack \<times> UrhoKeyframe option" where
  "addFrame tFrame acc =
     (case acc of (uTrack, uKeyframe) \<Rightarrow>
      (case UrhoKeyframe_init tFrame uTrack of
         (Inr k, uTrack1) \<Rightarrow> Inr (uTrack1\<lparr>keyframes := keyframes uTrack1 @ [k]\<rparr>, Some k)
       | (Inl (MaskError a b c), uTrack1) \<Rightarrow>
           (case uKeyframe of
              None \<Rightarrow> Inl UnboundLocalError
            | Some k \<Rightarrow> Inr (uTrack1\<lparr>keyframes := keyframes uTrack1 @ [k]\<rparr>, Some k))
       | (Inl e, uTrack1) \<Rightarrow> Inl e))"

fun addFrames ::
  "TFrame list \<Rightarrow> UrhoTrack \<times> UrhoKeyframe option \<Rightarrow> error + UrhoTrack \<times> UrhoKeyframe option"
  where
  "addFrames [] acc = Inr acc"
| "addFrames (tFrame # rest) acc =
     (case addFrame tFrame acc of Inl e \<Rightarrow> Inl e | Inr acc1 \<Rightarrow> addFrames rest acc1)"

text \<open>
  Lines 1205-1214: \<^verbatim>\<open>list.sort\<close> is stable, as \<^const>\<open>sort_key\<close> is. A track is kept
  when it has keyframes and its mask is neither \<^verbatim>\<open>None\<close> nor 0.
\<close>

definition keepTrack :: "UrhoTrack \<Rightarrow> bool" where
  "keepTrack uTrack =
     (keyframes uTrack \<noteq> [] \<and> (case track_mask uTrack of None \<Rightarrow> False | Some m \<Rightarrow> m \<noteq> 0))"

definition finishTrack :: "UrhoTrack \<Rightarrow> UrhoAnimation \<Rightarrow> UrhoAnimation" where
  "finishTrack uTrack0 uAnimation =
     (let uTrack = uTrack0\<lparr>keyframes := sort_key time (keyframes uTrack0)\<rparr> in
      if keepTrack uTrack
      then let len = time (last (keyframes uTrack)) in
           uAnimation\<lparr>tracks := tracks uAnimation @ [uTrack],
                      anim_length :=
                        (case anim_length uAnimation of
                           None \<Rightarrow> Some len
                         | Some l \<Rightarrow> if l < len then Some len else Some l)\<rparr>
      else uAnimation)"

definition trackStep ::
  "TTrack \<Rightarrow> UrhoAnimation \<times> UrhoKeyframe option \<Rightarrow> error + UrhoAnimation \<times> UrhoKeyframe option"
  where
  "trackStep tTrack acc =
     (case acc of (uAnimation, uKeyframe) \<Rightarrow>
      (case addFrames (tt_frames tTrack)
              (\<lparr> track_name = tt_name tTrack, track_mask = None, keyframes = [] \<rparr>, uKeyframe) of
         Inl e \<Rightarrow> Inl e
       | Inr (uTrack, uKeyframe1) \<Rightarrow> Inr (finishTrack uTrack uAnimation, uKeyframe1)))"

fun tracksLoop ::
  "TTrack list \<Rightarrow> UrhoAnimation \<times> UrhoKeyframe option
     \<Rightarrow> error + UrhoAnimation \<times> UrhoKeyframe option" where
  "tracksLoop [] acc = Inr acc"
| "tracksLoop (tTrack # rest) acc =
     (case trackStep tTrack acc of Inl e \<Rightarrow> Inl e | Inr acc1 \<Rightarrow> tracksLoop rest acc1)"

definition animationStep ::
  "TAnimation \<Rightarrow> UrhoAnimation list \<times> UrhoKeyframe option
     \<Rightarrow> error + UrhoAnimation list \<times> UrhoKeyframe option" where
  "animationStep tAnimation acc =
     (case acc of (uAnimations, uKeyframe) \<Rightarrow>
      (case tracksLoop (ta_tracks tAnimation)
              (\<lparr> anim_name = ta_name tAnimation, anim_length = None, tracks = [] \<rparr>, uKeyframe) of
         Inl e \<Rightarrow> Inl e
       | Inr (uAnimation, uKeyframe1) \<Rightarrow>
           Inr (if tracks uAnimation \<noteq> [] then uAnimations @ [uAnimation] else uAnimations,
                uKeyframe1)))"

fun animationsLoop ::
  "TAnimation list \<Rightarrow> UrhoAnimation list \<times> UrhoKeyframe option
     \<Rightarrow> error + UrhoAnimation list \<times> UrhoKeyframe option" where
  "animationsLoop [] acc = Inr acc"
| "animationsLoop (tAnimation # rest) acc =
     (case animationStep tAnimation acc of
        Inl e \<Rightarrow> Inl e
      | Inr acc1 \<Rightarrow> animationsLoop rest acc1)"

definition exportAnimations :: "TAnimation list \<Rightarrow> error + UrhoAnimation list" where
  "exportAnimations animationsList =
     (case animationsLoop animationsList ([], None) of
        Inl e \<Rightarrow> Inl e
      | Inr (uAnimations, uKeyframe) \<Rightarrow> Inr uAnimations)"

subsection \<open>The consolidation as the specification words it\<close>

text \<open>
  These four definitions follow the specification, not the code: a track carries its
  keyframes sorted by time and the mask of its frames; tracks with an empty mask or without
  keyframes are discarded; the length of an animation is the largest final-keyframe time of
  the surviving tracks; an animation without surviving tracks is discarded. They are compared
  with \<^const>\<open>exportAnimations\<close> below.
\<close>

definition spec_track :: "TTrack \<Rightarrow> UrhoTrack" where
  "spec_track tTrack =
     \<lparr> track_name = tt_name tTrack,
       track_mask = (case tt_frames tTrack of [] \<Rightarrow> None | f # fs \<Rightarrow> Some (keyframeMask f)),
       keyframes = sort_key time (map keyframeFields (tt_frames tTrack)) \<rparr>"

definition spec_length :: "UrhoTrack list \<Rightarrow> real option" where
  "spec_length ts =
     (if ts = [] then None else Some (Max (set (map (\<lambda>t. time (last (keyframes t))) ts))))"

definition spec_animation :: "TAnimation \<Rightarrow> UrhoAnimation" where
  "spec_animation tAnimation =
     (let ts = filter keepTrack (map spec_track (ta_tracks tAnimation)) in
      \<lparr> anim_name = ta_name tAnimation, anim_length = spec_length ts, tracks = ts \<rparr>)"

definition spec_animations :: "TAnimation list \<Rightarrow> UrhoAnimation list" where
  "spec_animations animationsList =
     filter (\<lambda>a. tracks a \<noteq> []) (map spec_animation animationsList)"

section \<open>Example inputs\<close>

text \<open>A source vertex with the given position, normal and weights and nothing else.\<close>

definition tvertex :: "Vector option \<Rightarrow> Vector option \<Rightarrow> (nat \<times> real) list option \<Rightarrow> TVertex" where
  "tvertex p n w =
     \<lparr> tv_blenderIndex = None, tv_pos = p, tv_normal = n, tv_color = None, tv_uv = None,
       tv_uv2 = None, tv_tangent = None, tv_weights = w \<rparr>"









text \<open>A vertex buffer whose morphs touch the vertices 2 to 5.\<close>

definition morphedBuffer :: UrhoVertexBuffer where
  "morphedBuffer =
     \<lparr> elementMask = Some 1, morphMinIndex = Some 2, morphMaxIndex = Some 5,
       vertices = [0, 1, 2, 3, 4, 5, 6] \<rparr>"

text \<open>
  The index buffer of a mesh of 21846 triangles over three vertices, as the geometry loop
  leaves it (65538 indices, index size not yet set).
\<close>

definition manyTrianglesBuffer :: UrhoIndexBuffer where
  "manyTrianglesBuffer = \<lparr> indexSize = 0, indexes = concat (replicate 21846 [0, 1, 2]) \<rparr>"

text \<open>Source keyframes that carry a position, or a position and a rotation.\<close>

definition posFrame :: "real \<Rightarrow> Vector \<Rightarrow> TFrame" where
  "posFrame t p = \<lparr> tf_time = t, tf_position = Some p, tf_rotation = None, tf_scale = None \<rparr>"

definition posRotFrame :: "real \<Rightarrow> Vector \<Rightarrow> Vector \<Rightarrow> TFrame" where
  "posRotFrame t p r =
     \<lparr> tf_time = t, tf_position = Some p, tf_rotation = Some r, tf_scale = None \<rparr>"

definition emptyFrame :: "real \<Rightarrow> TFrame" where
  "emptyFrame t = \<lparr> tf_time = t, tf_position = None, tf_rotation = None, tf_scale = None \<rparr>"

text \<open>
  An animation with one track of three keyframes out of order, a track without frames and
  a track whose only frame has no channel; and an animation whose only track has no frames.
\<close>

definition walkAnimation :: TAnimation where
  "walkAnimation =
     \<lparr> ta_name = ''walk'',
       ta_tracks =
         [\<lparr> tt_name = ''hip'',
            tt_frames = [posFrame 0.5 [1, 0, 0], posFrame 0.0 [0, 0, 0], posFrame 1.2 [2, 0, 0]] \<rparr>,
          \<lparr> tt_name = ''knee'', tt_frames = [] \<rparr>,
          \<lparr> tt_name = ''toe'', tt_frames = [emptyFrame 3] \<rparr>] \<rparr>"

definition idleAnimation :: TAnimation where
  "idleAnimation = \<lparr> ta_name = ''idle'', ta_tracks = [\<lparr> tt_name = ''hip'', tt_frames = [] \<rparr>] \<rparr>"

definition walkResult :: UrhoAnimation where
  "walkResult =
     \<lparr> anim_name = ''walk'', anim_length = Some 1.2,
       tracks =
         [\<lparr> track_name = ''hip'', track_mask = Some 1,
            keyframes =
              [\<lparr> time = 0.0, position = Some [0, 0, 0], rotation = None, scale = None \<rparr>,
               \<lparr> time = 0.5, position = Some [1, 0, 0], rotation = None, scale = None \<rparr>,
               \<lparr> time = 1.2, position = Some [2, 0, 0], rotation = None, scale = None \<rparr>] \<rparr>] \<rparr>"

text \<open>An animation whose second keyframe has a channel more than the first.\<close>

definition mismatchAnimation :: TAnimation where
  "mismatchAnimation =
     \<lparr> ta_name = ''turn'',
       ta_tracks =
         [\<lparr> tt_name = ''hip'',
            tt_frames = [posFrame 0 [0, 0, 0], posRotFrame 1 [0, 0, 0] [1, 0, 0, 0]] \<rparr>] \<rparr>"

text \<open>
  Vertices with a position, a unit normal and one texture coordinate. Four of them are in the
  vertex buffer when a later LOD begins, all with the same position hash; the source vertices
  4 and 5 belong to the later LOD. \<open>lodMatched\<close> and \<open>lodAppended\<close> are the states after
  the loop body has run for vertex 4 and for vertex 5.
\<close>

definition uvVertex :: "Vector \<Rightarrow> Vector \<Rightarrow> Vector \<Rightarrow> UrhoVertex" where
  "uvVertex p n t =
     \<lparr> index = None, pos = Some p, normal = Some n, color = None, uv = Some t, uv2 = None,
       tangent = None, weights = [] \<rparr>"


definition uvTVertex :: "Vector \<Rightarrow> Vector \<Rightarrow> Vector \<Rightarrow> TVertex" where
  "uvTVertex p n t =
     \<lparr> tv_blenderIndex = None, tv_pos = Some p, tv_normal = Some n, tv_color = None,
       tv_uv = Some t, tv_uv2 = None, tv_tangent = None, tv_weights = None \<rparr>"

definition lodVertices :: "TVertex list" where
  "lodVertices =
     [uvTVertex [0, 1, 1] [0, 0, 1] [1 / 2, 1 / 2],
      uvTVertex [0, 0, 0] [0, 3 / 5, 4 / 5] [1 / 2, 1 / 2],
      uvTVertex [0, 0, 0] [0, 5 / 13, 12 / 13] [1 / 2, 1 / 2],
      uvTVertex [0, 0, 0] [0, 0, 1] [3 / 5, 1 / 2],
      uvTVertex [0, 0, 0] [0, 0, 1] [1 / 2, 1 / 2],
      uvTVertex [0, 0, 0] [1, 0, 0] [1 / 2, 1 / 2]]"






text \<open>
  Models for the geometry loop. The hash of a float with an integral value is that integer;
  \<open>intHash\<close> extends it to all reals. The options are those of the constructor of
  \<^verbatim>\<open>UrhoExportOptions\<close>. The vertices are the corners of a tetrahedron; one geometry draws
  two of its faces, the other draws one face in two LODs; the big pool has 65536 vertices.
\<close>

definition intHash :: "real \<Rightarrow> int" where "intHash x = \<lfloor>x\<rfloor>"

definition defaultOptions :: UrhoExportOptions where
  "defaultOptions = \<lparr> splitSubMeshes = False, useStrictLods = True \<rparr>"

definition tetraVertices :: "TVertex list" where
  "tetraVertices = [tvertex (Some [0, 0, 0]) None None, tvertex (Some [1, 0, 0]) None None,
     tvertex (Some [0, 1, 0]) None None, tvertex (Some [0, 0, 1]) None None]"

definition tetraGeometry :: TGeometry where
  "tetraGeometry = \<lparr> tg_lodLevels = [\<lparr> tl_distance = 0, tl_indexSet = [0, 1, 2, 3],
      tl_triangleList = [[0, 1, 2], [0, 2, 3]] \<rparr>] \<rparr>"

definition triGeometry :: TGeometry where
  "triGeometry = \<lparr> tg_lodLevels =
     [\<lparr> tl_distance = 0, tl_indexSet = [0, 1, 2], tl_triangleList = [[0, 1, 2]] \<rparr>,
      \<lparr> tl_distance = 10, tl_indexSet = [0, 1, 2], tl_triangleList = [[2, 1, 0]] \<rparr>] \<rparr>"

definition bigPool :: "TVertex list" where
  "bigPool = tetraVertices @ replicate 65532 (tvertex (Some [9, 9, 9]) None None)"

section \<open>Blend weights of a constructed vertex\<close>
































section \<open>The morph range in the model file\<close>

lemma writeUInt_0: "writeUInt (Some 0) = Inr [0, 0, 0, 0]"
  by (simp add: writeUInt_def upt_rec)

lemma updateMorphRanges_zero:
  assumes "morphMinIndex b = Some 0" "morphMaxIndex b = Some 0"
  shows "updateMorphRanges (replicate n 0) b = Inr b"
  using assms by (induction n) (simp_all add: updateMorphRange_def)

lemma updateMorphRanges_fresh:
  assumes "morphMinIndex b0 = None"
  shows "updateMorphRanges (replicate (Suc n) 0) b0 =
         Inr (b0\<lparr>morphMinIndex := Some 0, morphMaxIndex := Some 0\<rparr>)"
  using assms by (simp add: updateMorphRange_def updateMorphRanges_zero)

text \<open>
  C10: the model writer serialises as morph-range count of a vertex buffer the value 0 when
  \<open>morphMaxIndex\<close> is 0 and \<open>morphMaxIndex - morphMinIndex + 1\<close> otherwise. Hence a buffer
  whose morphs touch vertex 0 only (any number of times) ends with the range [0,0] and
  with the four count bytes 0, the same bytes as for the buffer that no morph touched.
\<close>

theorem C10_morph_range_count:
  "(morphMinIndex b = Some mn \<and> morphMaxIndex b = Some mx \<longrightarrow>
      morphRangeCount b = Inr (if mx = 0 then 0 else int mx - int mn + 1)
      \<and> writeMorphRangeCount b = writeUInt (Some (if mx = 0 then 0 else int mx - int mn + 1)))
   \<and> (morphMinIndex b0 = None \<and> morphMaxIndex b0 = None \<longrightarrow>
      (\<exists>b1. updateMorphRanges (replicate (Suc n) 0) b0 = Inr b1
         \<and> morphMinIndex (defaultMorphRange b1) = Some 0
         \<and> morphMaxIndex (defaultMorphRange b1) = Some 0
         \<and> writeMorphRangeCount (defaultMorphRange b1) = Inr [0, 0, 0, 0]
         \<and> writeMorphRangeCount (defaultMorphRange b1)
             = writeMorphRangeCount (defaultMorphRange b0)))"
proof -
  have a: "morphMinIndex b = Some mn \<and> morphMaxIndex b = Some mx \<longrightarrow>
      morphRangeCount b = Inr (if mx = 0 then 0 else int mx - int mn + 1)
      \<and> writeMorphRangeCount b = writeUInt (Some (if mx = 0 then 0 else int mx - int mn + 1))"
    by (simp add: writeMorphRangeCount_def morphRangeCount_def)
  have b: "\<exists>b1. updateMorphRanges (replicate (Suc n) 0) b0 = Inr b1
         \<and> morphMinIndex (defaultMorphRange b1) = Some 0
         \<and> morphMaxIndex (defaultMorphRange b1) = Some 0
         \<and> writeMorphRangeCount (defaultMorphRange b1) = Inr [0, 0, 0, 0]
         \<and> writeMorphRangeCount (defaultMorphRange b1)
             = writeMorphRangeCount (defaultMorphRange b0)"
    if h: "morphMinIndex b0 = None" "morphMaxIndex b0 = None"
  proof -
    let ?b1 = "b0\<lparr>morphMinIndex := Some 0, morphMaxIndex := Some 0\<rparr>"
    have "updateMorphRanges (replicate (Suc n) 0) b0 = Inr ?b1"
      using h(1) by (rule updateMorphRanges_fresh)
    moreover have "defaultMorphRange ?b1 = ?b1" "defaultMorphRange b0 = ?b1"
      using h by (simp_all add: defaultMorphRange_def)
    moreover have "writeMorphRangeCount ?b1 = Inr [0, 0, 0, 0]"
      by (simp add: writeMorphRangeCount_def morphRangeCount_def writeUInt_0)
    ultimately show ?thesis
      by simp
  qed
  from a b show ?thesis
    by blast
qed

theorem C10_morph_range_count_witness:
  "morphMinIndex morphedBuffer = Some 2 \<and> morphMaxIndex morphedBuffer = Some 5
   \<and> writeMorphRangeCount morphedBuffer = Inr [4, 0, 0, 0]
   \<and> morphMinIndex newVertexBuffer = None \<and> morphMaxIndex newVertexBuffer = None
   \<and> updateMorphRanges [0] newVertexBuffer = Inr (defaultMorphRange newVertexBuffer)
   \<and> writeMorphRangeCount (defaultMorphRange newVertexBuffer) = Inr [0, 0, 0, 0]"
proof -
  have h1: "morphMinIndex morphedBuffer = Some 2 \<and> morphMaxIndex morphedBuffer = Some 5"
    by (simp add: morphedBuffer_def)
  have h2: "morphMinIndex newVertexBuffer = None \<and> morphMaxIndex newVertexBuffer = None"
    by (simp add: newVertexBuffer_def)
  have u: "updateMorphRanges [0] newVertexBuffer = Inr (defaultMorphRange newVertexBuffer)"
    by (simp add: newVertexBuffer_def updateMorphRange_def defaultMorphRange_def)
  have w: "writeUInt (Some 4) = Inr [4, 0, 0, 0]"
    by (simp add: writeUInt_def upt_rec)
  from C10_morph_range_count [of morphedBuffer 2 5 newVertexBuffer 0] h1 h2 u w
  show ?thesis
    by (auto simp: numeral_eq_Suc)
qed

section \<open>The index size\<close>

lemma length_manyTriangles: "length (indexes manyTrianglesBuffer) = 65538"
  by (simp add: manyTrianglesBuffer_def length_concat sum_list_replicate)

text \<open>
  C4 at its failing input: the index buffer of 21846 triangles refers to the vertices 0, 1
  and 2 only, so the vertex buffer it refers to has no more than 65535 vertices; yet line
  1097 compares the number of indices, 65538, and the index size becomes 4.
\<close>

theorem C4_index_size_follows_index_count:
  "set (indexes manyTrianglesBuffer) = {0, 1, 2}
   \<and> length (indexes manyTrianglesBuffer) = 65538
   \<and> indexSize (setIndexSize manyTrianglesBuffer) = 4
   \<and> map indexSize (setIndexSizes [manyTrianglesBuffer]) = [4]"
proof -
  have "set (indexes manyTrianglesBuffer) = {0, 1, 2}"
    by (auto simp: manyTrianglesBuffer_def)
  then show ?thesis
    by (simp add: setIndexSizes_def setIndexSize_def length_manyTriangles)
qed

section \<open>Animations\<close>

lemma addFrame_Inr:
  assumes "addFrame f (tr, k) = Inr (tr', k')"
  shows "tr' = tr\<lparr>track_mask := Some (keyframeMask f),
                   keyframes := keyframes tr @ [keyframeFields f]\<rparr>
         \<and> (track_mask tr = None \<or> track_mask tr = Some (keyframeMask f))"
  using assms
  by (auto simp: addFrame_def UrhoKeyframe_init_def Let_def split: option.splits if_splits)

lemma addFrames_Inr:
  assumes "addFrames fs (tr, k) = Inr (tr', k')"
  shows "tr' = tr\<lparr>track_mask := (case fs of [] \<Rightarrow> track_mask tr | f # r \<Rightarrow> Some (keyframeMask f)),
                   keyframes := keyframes tr @ map keyframeFields fs\<rparr>"
  using assms
proof (induction fs arbitrary: tr k)
  case Nil
  then show ?case by simp
next
  case (Cons f fs)
  from Cons.prems obtain tr1 k1 where s: "addFrame f (tr, k) = Inr (tr1, k1)"
    and r: "addFrames fs (tr1, k1) = Inr (tr', k')"
    by (auto split: sum.splits)
  note a = addFrame_Inr [OF s]
  note b = Cons.IH [OF r]
  show ?case
  proof (cases fs)
    case Nil
    with a b show ?thesis by simp
  next
    case (Cons g gs)
    from r Cons obtain tr2 k2 where s2: "addFrame g (tr1, k1) = Inr (tr2, k2)"
      by (auto split: sum.splits)
    from addFrame_Inr [OF s2] a have "keyframeMask g = keyframeMask f"
      by auto
    with a b Cons show ?thesis by simp
  qed
qed

lemma trackStep_Inr:
  assumes "trackStep tTrack (a, k) = Inr (a', k')"
  shows "a' = finishTrack
                ((spec_track tTrack)\<lparr>keyframes := map keyframeFields (tt_frames tTrack)\<rparr>) a"
  using assms
  by (auto simp: trackStep_def spec_track_def split: sum.splits list.splits
        dest!: addFrames_Inr)

lemma spec_length_snoc:
  "spec_length (ts @ [t]) =
     (case spec_length ts of
        None \<Rightarrow> Some (time (last (keyframes t)))
      | Some l \<Rightarrow>
          if l < time (last (keyframes t)) then Some (time (last (keyframes t))) else Some l)"
proof (cases "ts = []")
  case True
  then show ?thesis by (simp add: spec_length_def)
next
  case False
  let ?f = "\<lambda>t. time (last (keyframes t))"
  define M where "M = Max (set (map ?f ts))"
  have "set (map ?f (ts @ [t])) = insert (?f t) (?f ` set ts)"
    by simp
  moreover have "Max (insert (?f t) (?f ` set ts)) = max (?f t) (Max (?f ` set ts))"
    using False by (intro Max_insert) simp_all
  ultimately have "Max (set (map ?f (ts @ [t]))) = max (?f t) M"
    by (simp add: M_def)
  then have a: "spec_length (ts @ [t]) = Some (max (?f t) M)"
    unfolding spec_length_def by simp
  have b: "spec_length ts = Some M"
    using False unfolding spec_length_def M_def by simp
  show ?thesis
    unfolding a b by (simp add: max_def)
qed

lemma finishTrack_spec:
  assumes "anim_length a = spec_length (tracks a)"
  shows "finishTrack
           ((spec_track tTrack)\<lparr>keyframes := map keyframeFields (tt_frames tTrack)\<rparr>) a =
         a\<lparr>tracks := tracks a @ filter keepTrack [spec_track tTrack],
           anim_length := spec_length (tracks a @ filter keepTrack [spec_track tTrack])\<rparr>"
proof -
  have e: "(spec_track tTrack)\<lparr>keyframes :=
              sort_key time (map keyframeFields (tt_frames tTrack))\<rparr> = spec_track tTrack"
    by (simp add: spec_track_def)
  show ?thesis
    using assms by (simp add: finishTrack_def Let_def e spec_length_snoc)
qed

lemma tracksLoop_Inr:
  assumes "tracksLoop ts (a, k) = Inr (a', k')" and "anim_length a = spec_length (tracks a)"
  shows "a' = a\<lparr>tracks := tracks a @ filter keepTrack (map spec_track ts),
                 anim_length := spec_length (tracks a @ filter keepTrack (map spec_track ts))\<rparr>"
  using assms
proof (induction ts arbitrary: a k)
  case Nil
  then show ?case by simp
next
  case (Cons t ts)
  from Cons.prems(1) obtain a1 k1 where s: "trackStep t (a, k) = Inr (a1, k1)"
    and r: "tracksLoop ts (a1, k1) = Inr (a', k')"
    by (auto split: sum.splits)
  have a1: "a1 = a\<lparr>tracks := tracks a @ filter keepTrack [spec_track t],
           anim_length := spec_length (tracks a @ filter keepTrack [spec_track t])\<rparr>"
    using trackStep_Inr [OF s] finishTrack_spec [OF Cons.prems(2)] by simp
  then have inv: "anim_length a1 = spec_length (tracks a1)"
    by simp
  from Cons.IH [OF r inv] a1 show ?case
    by simp
qed

lemma animationStep_Inr:
  assumes "animationStep tAnimation (as, k) = Inr (as', k')"
  shows "as' = as @ filter (\<lambda>a. tracks a \<noteq> []) [spec_animation tAnimation]"
proof -
  let ?a0 = "\<lparr> anim_name = ta_name tAnimation, anim_length = None, tracks = [] \<rparr>"
  from assms obtain a1 where l: "tracksLoop (ta_tracks tAnimation) (?a0, k) = Inr (a1, k')"
    and r: "as' = (if tracks a1 \<noteq> [] then as @ [a1] else as)"
    by (auto simp: animationStep_def split: sum.splits)
  have "anim_length ?a0 = spec_length (tracks ?a0)"
    by (simp add: spec_length_def)
  from tracksLoop_Inr [OF l this] have "a1 = spec_animation tAnimation"
    by (simp add: spec_animation_def Let_def)
  with r show ?thesis
    by simp
qed

lemma animationsLoop_Inr:
  assumes "animationsLoop al (as, k) = Inr (as', k')"
  shows "as' = as @ spec_animations al"
  using assms
proof (induction al arbitrary: as k)
  case Nil
  then show ?case by (simp add: spec_animations_def)
next
  case (Cons t ts)
  from Cons.prems obtain a1 k1 where s: "animationStep t (as, k) = Inr (a1, k1)"
    and r: "animationsLoop ts (a1, k1) = Inr (as', k')"
    by (auto split: sum.splits)
  from Cons.IH [OF r] animationStep_Inr [OF s] show ?case
    by (simp add: spec_animations_def)
qed

lemma exportAnimations_Inr:
  assumes "exportAnimations al = Inr as"
  shows "as = spec_animations al"
  using assms
  by (auto simp: exportAnimations_def split: sum.splits dest: animationsLoop_Inr)

lemma exportAnimations_walk: "exportAnimations [walkAnimation, idleAnimation] = Inr [walkResult]"
  by (simp add: exportAnimations_def walkAnimation_def idleAnimation_def walkResult_def
        posFrame_def emptyFrame_def animationStep_def trackStep_def addFrame_def
        UrhoKeyframe_init_def keyframeMask_def keyframeFields_def truthy_def finishTrack_def
        keepTrack_def TRACK_POSITION_def TRACK_ROTATION_def TRACK_SCALE_def Let_def)

text \<open>
  C7: whenever the animation loop returns, the animations it exported are those of the
  specification: every exported animation has at least one track; every track of it has its
  keyframes sorted ascending by time, at least one keyframe and a mask that is not empty (the
  other tracks of the source were discarded, and so were the animations left without a
  track); and its length is the largest final-keyframe time of its tracks. The witness is
  the track with keyframes at 0.5, 0.0 and 1.2, which is exported with the keyframes at
  0.0, 0.5 and 1.2 and the length 1.2.
\<close>

theorem C7_animation_consolidation:
  assumes "exportAnimations animationsList = Inr uAnimations"
  shows "uAnimations = spec_animations animationsList
    \<and> (\<forall>a \<in> set uAnimations.
          tracks a \<noteq> []
          \<and> (\<forall>t \<in> set (tracks a).
                sorted (map time (keyframes t)) \<and> keyframes t \<noteq> []
                \<and> track_mask t \<noteq> None \<and> track_mask t \<noteq> Some 0)
          \<and> anim_length a = Some (Max (set (map (\<lambda>t. time (last (keyframes t))) (tracks a)))))"
proof -
  have e: "uAnimations = spec_animations animationsList"
    using assms by (rule exportAnimations_Inr)
  have "tracks a \<noteq> []
        \<and> (\<forall>t \<in> set (tracks a).
              sorted (map time (keyframes t)) \<and> keyframes t \<noteq> []
              \<and> track_mask t \<noteq> None \<and> track_mask t \<noteq> Some 0)
        \<and> anim_length a = Some (Max (set (map (\<lambda>t. time (last (keyframes t))) (tracks a))))"
    if "a \<in> set (spec_animations animationsList)" for a
  proof -
    from that obtain ta where a: "a = spec_animation ta" and ne: "tracks a \<noteq> []"
      by (auto simp: spec_animations_def)
    have "sorted (map time (keyframes t)) \<and> keyframes t \<noteq> []
          \<and> track_mask t \<noteq> None \<and> track_mask t \<noteq> Some 0"
      if "t \<in> set (tracks a)" for t
    proof -
      from that a obtain tt where t: "t = spec_track tt" and k: "keepTrack t"
        by (auto simp: spec_animation_def Let_def)
      have "sorted (map time (keyframes t))"
        unfolding t by (simp add: spec_track_def)
      with k show ?thesis
        by (auto simp: keepTrack_def split: option.splits)
    qed
    moreover have "anim_length a = Some (Max (set (map (\<lambda>t. time (last (keyframes t))) (tracks a))))"
      using ne unfolding a by (simp add: spec_animation_def Let_def spec_length_def)
    ultimately show ?thesis
      using ne by blast
  qed
  with e show ?thesis
    by blast
qed

theorem C7_animation_consolidation_witness:
  "exportAnimations [walkAnimation, idleAnimation] = Inr [walkResult]
   \<and> spec_animations [walkAnimation, idleAnimation] = [walkResult]
   \<and> map (\<lambda>t. map time (keyframes t)) (tracks walkResult) = [[0.0, 0.5, 1.2]]
   \<and> anim_length walkResult = Some 1.2
   \<and> sorted (map time (keyframes (hd (tracks walkResult))))"
proof -
  note h = exportAnimations_walk
  from C7_animation_consolidation [OF h]
  have "[walkResult] = spec_animations [walkAnimation, idleAnimation]"
    and "\<forall>t \<in> set (tracks walkResult). sorted (map time (keyframes t))"
    by simp_all
  moreover have "tracks walkResult \<noteq> []" "hd (tracks walkResult) \<in> set (tracks walkResult)"
    by (simp_all add: walkResult_def)
  moreover have "map (\<lambda>t. map time (keyframes t)) (tracks walkResult) = [[0.0, 0.5, 1.2]]"
    and "anim_length walkResult = Some 1.2"
    by (simp_all add: walkResult_def)
  ultimately show ?thesis
    using h by simp
qed

text \<open>
  C8 at its failing input: the track's first keyframe has a position, the second a position
  and a rotation. The constructor of the second keyframe raises \<^verbatim>\<open>AttributeError\<close> and
  leaves the track's mask as it was; the handler does not catch it, so the whole export
  ends with this exception instead of going on with the remaining keyframes and tracks.
\<close>

theorem C8_mask_mismatch_aborts:
  "keyframeMask (posFrame 0 [0, 0, 0]) = 1
   \<and> keyframeMask (posRotFrame 1 [0, 0, 0] [1, 0, 0, 0]) = 3
   \<and> UrhoKeyframe_init (posRotFrame 1 [0, 0, 0] [1, 0, 0, 0])
        \<lparr> track_name = ''hip'', track_mask = Some 1, keyframes = [keyframeFields (posFrame 0 [0, 0, 0])] \<rparr>
      = (Inl AttributeError,
         \<lparr> track_name = ''hip'', track_mask = Some 1, keyframes = [keyframeFields (posFrame 0 [0, 0, 0])] \<rparr>)
   \<and> exportAnimations [mismatchAnimation, walkAnimation] = Inl AttributeError"
  by (simp add: exportAnimations_def mismatchAnimation_def posFrame_def posRotFrame_def
        animationStep_def trackStep_def addFrame_def UrhoKeyframe_init_def keyframeMask_def
        keyframeFields_def truthy_def TRACK_POSITION_def TRACK_ROTATION_def TRACK_SCALE_def
        Let_def)

section \<open>The relaxed search of the later LODs\<close>

lemma ef_less_INFINITY [simp]: "ef_less e INFINITY \<longleftrightarrow> e \<noteq> INFINITY"
  by (cases e) simp_all

lemma ef_less_irrefl [simp]: "\<not> ef_less e e"
  by (cases e) simp_all









subsection \<open>The error of one candidate\<close>








subsection \<open>The loop body on a later LOD\<close>








subsection \<open>A later LOD that finds one vertex and adds another\<close>



lemma lodVertices_fields:
  "initFields (lodVertices ! 4) = uvVertex [0, 0, 0] [0, 0, 1] [1 / 2, 1 / 2]"
  "initFields (lodVertices ! 5) = uvVertex [0, 0, 0] [1, 0, 0] [1 / 2, 1 / 2]"
  by (simp_all add: lodVertices_def uvTVertex_def uvVertex_def initFields_def initFieldsF_def
        initWeightsF_def)


















section \<open>The buffer policy\<close>

lemma constructed_frame:
  "vertexBuffersDone (constructed t r s) = vertexBuffersDone s"
  "vertexBuffer (constructed t r s) = vertexBuffer s"
  "indexBuffersDone (constructed t r s) = indexBuffersDone s"
  "indexBuffer (constructed t r s) = indexBuffer s"
  "geometries (constructed t r s) = geometries s"
  "modelIndexMap (constructed t r s) = modelIndexMap s"
  "uVerticesMap (constructed t r s) = uVerticesMap s"
  "boundingBox (constructed t r s) = boundingBox s"
  by (simp_all add: constructed_def split: sum.splits option.splits)

lemma addVertex_frame:
  assumes "addVertex H opts vl i t (s, im, w) = Inr (s', im', w')"
  shows "vertexBuffersDone s' = vertexBuffersDone s"
    and "indexBuffersDone s' = indexBuffersDone s"
    and "indexBuffer s' = indexBuffer s"
    and "geometries s' = geometries s"
    and "modelIndexMap s' = modelIndexMap s"
    and "vertexBuffer s \<noteq> None"
    and "vertexBuffer s' \<noteq> None"
  using assms
  by (auto simp: addVertex_def constructed_frame Let_def split: if_splits option.splits sum.splits)

lemma addVertices_frame:
  assumes "addVertices H opts vl i ts (s, im, w) = Inr (s', im', w')"
  shows "vertexBuffersDone s' = vertexBuffersDone s
    \<and> indexBuffersDone s' = indexBuffersDone s
    \<and> indexBuffer s' = indexBuffer s
    \<and> geometries s' = geometries s
    \<and> (vertexBuffer s \<noteq> None \<longrightarrow> vertexBuffer s' \<noteq> None)"
  using assms
proof (induction ts arbitrary: s im w)
  case Nil
  then show ?case by simp
next
  case (Cons t ts)
  from Cons.prems obtain s1 im1 w1 where a: "addVertex H opts vl i t (s, im, w) = Inr (s1, im1, w1)"
    and r: "addVertices H opts vl i ts (s1, im1, w1) = Inr (s', im', w')"
    by (auto split: sum.splits)
  from addVertex_frame [OF a] Cons.IH [OF r] show ?case by simp
qed


lemma length_modelVertexBuffers:
  "length (modelVertexBuffers s) =
     length (vertexBuffersDone s) + (if vertexBuffer s = None then 0 else 1)"
  by (simp add: modelVertexBuffers_def split: option.splits)

lemma length_modelIndexBuffers:
  "length (modelIndexBuffers s) =
     length (indexBuffersDone s) + (if indexBuffer s = None then 0 else 1)"
  by (simp add: modelIndexBuffers_def split: option.splits)

lemma openBuffers_props:
  assumes "buffersPaired s" and "openBuffers uob i s = (s2, start)"
  shows "buffersPaired s2"
    and "vertexBuffer s2 \<noteq> None"
    and "length (modelVertexBuffers s2) =
           length (modelVertexBuffers s)
           + (if vertexBuffer s = None \<or> (i = 0 \<and> \<not> uob) then 1 else 0)"
    and "geometries s2 = geometries s"
  using assms
  by (auto simp: buffersPaired_def openBuffers_def Let_def length_modelVertexBuffers
        length_modelIndexBuffers split: if_splits)

lemma lodLevelStep_buffers:
  assumes "lodLevelStep H opts nBones vl uob i tLod (s, g, c) = Inr (s', g', c')"
    and "buffersPaired s"
  shows "buffersPaired s' \<and> vertexBuffer s' \<noteq> None \<and> geometries s' = geometries s
    \<and> length (modelVertexBuffers s') =
         length (modelVertexBuffers s)
         + (if vertexBuffer s = None \<or> (i = 0 \<and> \<not> uob) then 1 else 0)
    \<and> (\<exists>lod. lodLevels g' = lodLevels g @ [lod]
          \<and> lod_vertexBuffer lod = length (modelVertexBuffers s') - 1
          \<and> lod_indexBuffer lod = length (modelIndexBuffers s') - 1)"
proof -
  obtain s2 start where o: "openBuffers uob i s = (s2, start)"
    by (cases "openBuffers uob i s")
  note p = openBuffers_props [OF assms(2) o]
  from assms(1) o obtain s3 im w vb ib idxs st where
    v: "addVertices H opts vl i (tl_indexSet tLod) (s2, Map.empty, False) = Inr (s3, im, w)"
    and b: "vertexBuffer s3 = Some vb" "indexBuffer s3 = Some ib"
    and r: "s' = s3\<lparr>store := st, indexBuffer := Some (ib\<lparr>indexes := idxs\<rparr>),
                     modelIndexMap := addToModelIndexMap (length (modelVertexBuffers s2) - 1) im
                                        (modelIndexMap s3)\<rparr>"
    and g: "lodLevels g' = lodLevels g @
              [\<lparr> lod_distance = tl_distance tLod, lod_primitiveType = TRIANGLE_LIST,
                 lod_vertexBuffer = length (modelVertexBuffers s2) - 1,
                 lod_indexBuffer = length (modelIndexBuffers s2) - 1,
                 lod_startIndex = start,
                 lod_countIndex = length (tl_triangleList tLod) * 3 \<rparr>]"
    by (auto simp: lodLevelStep_def Let_def split: sum.splits option.splits prod.splits)
  note f = addVertices_frame [OF v]
  from f p(2) b have l3: "length (modelVertexBuffers s3) = length (modelVertexBuffers s2)"
    "length (modelIndexBuffers s3) = length (modelIndexBuffers s2)"
    by (auto simp: length_modelVertexBuffers length_modelIndexBuffers)
  from r b have l': "length (modelVertexBuffers s') = length (modelVertexBuffers s3)"
    "length (modelIndexBuffers s') = length (modelIndexBuffers s3)"
    by (simp_all add: length_modelVertexBuffers length_modelIndexBuffers)
  from r b p(1) l3 l' have "buffersPaired s'"
    by (simp add: buffersPaired_def)
  moreover from r b have "vertexBuffer s' \<noteq> None" by simp
  moreover from r f p(4) have "geometries s' = geometries s" by simp
  ultimately show ?thesis
    using p(3) l3 l' g by simp
qed


lemma lodLevelsLoop_buffers:
  assumes "lodLevelsLoop H opts nBones vl uob i ls (s, g, c) = Inr (s', g', c')"
    and "buffersPaired s"
  shows "buffersPaired s' \<and> geometries s' = geometries s
    \<and> (vertexBuffer s \<noteq> None \<or> ls \<noteq> [] \<longrightarrow> vertexBuffer s' \<noteq> None)
    \<and> length (modelVertexBuffers s') =
         length (modelVertexBuffers s)
         + (if ls \<noteq> [] \<and> (vertexBuffer s = None \<or> (i = 0 \<and> \<not> uob)) then 1 else 0)
    \<and> (\<exists>new. lodLevels g' = lodLevels g @ new \<and> length new = length ls
          \<and> (\<forall>l \<in> set new. lod_vertexBuffer l = length (modelVertexBuffers s') - 1
                \<and> lod_indexBuffer l = length (modelIndexBuffers s') - 1))"
  using assms
proof (induction ls arbitrary: i s g c)
  case Nil
  then show ?case by simp
next
  case (Cons tLod ls)
  from Cons.prems(1) obtain s1 g1 c1 where
    a: "lodLevelStep H opts nBones vl uob i tLod (s, g, c) = Inr (s1, g1, c1)"
    and r: "lodLevelsLoop H opts nBones vl uob (Suc i) ls (s1, g1, c1) = Inr (s', g', c')"
    by (auto split: sum.splits)
  from lodLevelStep_buffers [OF a Cons.prems(2)] obtain lod where
    p: "buffersPaired s1" "vertexBuffer s1 \<noteq> None" "geometries s1 = geometries s"
      "length (modelVertexBuffers s1) =
         length (modelVertexBuffers s)
         + (if vertexBuffer s = None \<or> (i = 0 \<and> \<not> uob) then 1 else 0)"
      "lodLevels g1 = lodLevels g @ [lod]"
      "lod_vertexBuffer lod = length (modelVertexBuffers s1) - 1"
      "lod_indexBuffer lod = length (modelIndexBuffers s1) - 1"
    by blast
  from Cons.IH [OF r p(1)] p(2) obtain new where
    q: "buffersPaired s'" "geometries s' = geometries s1" "vertexBuffer s' \<noteq> None"
      "length (modelVertexBuffers s') = length (modelVertexBuffers s1)"
      "lodLevels g' = lodLevels g1 @ new" "length new = length ls"
      "\<forall>l \<in> set new. lod_vertexBuffer l = length (modelVertexBuffers s') - 1
                \<and> lod_indexBuffer l = length (modelIndexBuffers s') - 1"
    by auto
  from p(1) q(1) q(4) have i: "length (modelIndexBuffers s') = length (modelIndexBuffers s1)"
    by (simp add: buffersPaired_def)
  have "lodLevels g' = lodLevels g @ (lod # new)" "length (lod # new) = length (tLod # ls)"
    using p(5) q(5) q(6) by simp_all
  moreover have "\<forall>l \<in> set (lod # new). lod_vertexBuffer l = length (modelVertexBuffers s') - 1
                \<and> lod_indexBuffer l = length (modelIndexBuffers s') - 1"
    using p(6) p(7) q(4) q(7) i by simp
  ultimately have "\<exists>new. lodLevels g' = lodLevels g @ new \<and> length new = length (tLod # ls)
          \<and> (\<forall>l \<in> set new. lod_vertexBuffer l = length (modelVertexBuffers s') - 1
                \<and> lod_indexBuffer l = length (modelIndexBuffers s') - 1)"
    by blast
  with p(3) p(4) q(1) q(2) q(3) q(4) show ?case by simp
qed

lemma geometryStep_buffers:
  assumes "geometryStep H opts nBones vl uob tG s = Inr s'" and "buffersPaired s"
  shows "buffersPaired s'
    \<and> (vertexBuffer s \<noteq> None \<or> tg_lodLevels tG \<noteq> [] \<longrightarrow> vertexBuffer s' \<noteq> None)
    \<and> length (modelVertexBuffers s') =
         length (modelVertexBuffers s)
         + (if tg_lodLevels tG \<noteq> [] \<and> (vertexBuffer s = None \<or> \<not> uob) then 1 else 0)
    \<and> (\<exists>uG. geometries s' = geometries s @ [uG]
          \<and> length (lodLevels uG) = length (tg_lodLevels tG)
          \<and> (\<forall>l \<in> set (lodLevels uG). lod_vertexBuffer l = length (modelVertexBuffers s') - 1
                \<and> lod_indexBuffer l = length (modelIndexBuffers s') - 1))"
proof -
  from assms(1) obtain s1 uG c1 where
    l: "lodLevelsLoop H opts nBones vl uob 0 (tg_lodLevels tG) (s, newGeometry, [0, 0, 0])
          = Inr (s1, uG, c1)"
    and r: "s' = s1\<lparr>geometries := geometries s1 @ [uG]\<rparr>"
    by (auto simp: geometryStep_def split: sum.splits)
  from r have e: "modelVertexBuffers s' = modelVertexBuffers s1"
    "modelIndexBuffers s' = modelIndexBuffers s1" "vertexBuffer s' = vertexBuffer s1"
    "buffersPaired s' = buffersPaired s1"
    by (simp_all add: modelVertexBuffers_def modelIndexBuffers_def buffersPaired_def)
  from lodLevelsLoop_buffers [OF l assms(2)] r show ?thesis
    unfolding e by (auto simp: newGeometry_def)
qed

lemma geometryStep_allocated:
  assumes "geometryStep H opts nBones vl uob tG s = Inr s'" and "allocated uob gl s"
  shows "allocated uob (gl @ [tG]) s'"
proof -
  from assms(2) have bp: "buffersPaired s" by (simp add: allocated_def)
  from geometryStep_buffers [OF assms(1) bp] obtain uG where
    p: "buffersPaired s'"
      "vertexBuffer s \<noteq> None \<or> tg_lodLevels tG \<noteq> [] \<longrightarrow> vertexBuffer s' \<noteq> None"
      "length (modelVertexBuffers s') =
         length (modelVertexBuffers s)
         + (if tg_lodLevels tG \<noteq> [] \<and> (vertexBuffer s = None \<or> \<not> uob) then 1 else 0)"
      "geometries s' = geometries s @ [uG]"
      "length (lodLevels uG) = length (tg_lodLevels tG)"
      "\<forall>l \<in> set (lodLevels uG). lod_vertexBuffer l = length (modelVertexBuffers s') - 1
                \<and> lod_indexBuffer l = length (modelIndexBuffers s') - 1"
    by blast
  from assms(2) have a: "(vertexBuffer s = None) = (nonEmpty gl = [])"
    "length (modelVertexBuffers s) = buffersFor uob gl" "length (geometries s) = length gl"
    by (simp_all add: allocated_def)
  have n: "length (modelVertexBuffers s') = buffersFor uob (gl @ [tG])"
    using p(3) a(1) a(2) by (auto simp: buffersFor_def nonEmpty_def min_def Suc_le_eq)
  have v: "(vertexBuffer s' = None) = (nonEmpty (gl @ [tG]) = [])"
  proof (cases "vertexBuffer s' = None")
    case True
    with p(2) a(1) show ?thesis by (auto simp: nonEmpty_def)
  next
    case False
    then have "length (modelVertexBuffers s') \<noteq> 0" by (auto simp: length_modelVertexBuffers)
    with n False show ?thesis by (auto simp: buffersFor_def split: if_splits)
  qed
  from p(1) n have ni: "length (modelIndexBuffers s') = buffersFor uob (gl @ [tG])"
    by (simp add: buffersPaired_def)
  have "length (lodLevels (geometries s' ! gi)) = length (tg_lodLevels ((gl @ [tG]) ! gi))
           \<and> (\<forall>l \<in> set (lodLevels (geometries s' ! gi)).
               lod_vertexBuffer l = buffersFor uob (take (Suc gi) (gl @ [tG])) - 1
               \<and> lod_indexBuffer l = buffersFor uob (take (Suc gi) (gl @ [tG])) - 1)"
    if "gi < length (gl @ [tG])" for gi
  proof (cases "gi < length gl")
    case True
    with assms(2) a(3) p(4) show ?thesis
      by (simp add: allocated_def nth_append)
  next
    case False
    with that have "gi = length gl" by simp
    with a(3) p(4) p(5) p(6) n ni show ?thesis
      by (simp add: nth_append)
  qed
  with p(1) p(4) a(3) n v show ?thesis
    by (simp add: allocated_def)
qed

lemma geometriesLoop_allocated:
  assumes "geometriesLoop H opts nBones vl uob rest s = Inr s'" and "allocated uob gl s"
  shows "allocated uob (gl @ rest) s'"
  using assms
proof (induction rest arbitrary: s gl)
  case Nil
  then show ?case by simp
next
  case (Cons tG rest)
  from Cons.prems(1) obtain s1 where a: "geometryStep H opts nBones vl uob tG s = Inr s1"
    and r: "geometriesLoop H opts nBones vl uob rest s1 = Inr s'"
    by (auto split: sum.splits)
  from Cons.IH [OF r geometryStep_allocated [OF a Cons.prems(2)]] show ?case by simp
qed

lemma allocated_initial: "allocated uob [] (initialState errs)"
  by (simp add: allocated_def buffersPaired_def initialState_def modelVertexBuffers_def
        modelIndexBuffers_def buffersFor_def nonEmpty_def)


lemma fold_max_ge: "m \<le> fold (\<lambda>x m. if f x > m then f x else (m::nat)) xs m"
proof (induction xs arbitrary: m)
  case Nil
  show ?case by simp
next
  case (Cons x xs)
  have "m \<le> (if f x > m then f x else m)" by simp
  also have "\<dots> \<le> fold (\<lambda>x m. if f x > m then f x else m) xs (if f x > m then f x else m)"
    by (rule Cons.IH)
  finally show ?case by simp
qed

lemma fold_max_upper:
  "x \<in> set xs \<Longrightarrow> f x \<le> fold (\<lambda>x m. if f x > m then f x else (m::nat)) xs m"
proof (induction xs arbitrary: m)
  case Nil
  then show ?case by simp
next
  case (Cons y xs)
  show ?case
  proof (cases "x = y")
    case True
    have "f y \<le> (if f y > m then f y else m)" by simp
    also have "\<dots> \<le> fold (\<lambda>x m. if f x > m then f x else m) xs (if f y > m then f y else m)"
      by (rule fold_max_ge)
    finally show ?thesis using True by simp
  next
    case False
    with Cons.prems have "x \<in> set xs" by simp
    from Cons.IH [OF this] show ?thesis by simp
  qed
qed

lemma fold_max_attained:
  "fold (\<lambda>x m. if f x > m then f x else (m::nat)) xs m = m
   \<or> (\<exists>x \<in> set xs. fold (\<lambda>x m. if f x > m then f x else m) xs m = f x)"
proof (induction xs arbitrary: m)
  case Nil
  show ?case by simp
next
  case (Cons y xs)
  from Cons.IH [of "if f y > m then f y else m"] show ?case
    by (auto split: if_splits)
qed

lemma fold_concat_map: "fold f (concat (map h xs)) m = fold (\<lambda>x. fold f (h x)) xs m"
  by (induction xs arbitrary: m) simp_all

lemma maxLodVertices_concat:
  "maxLodVertices gl =
     fold (\<lambda>l m. if length (tl_indexSet l) > m then length (tl_indexSet l) else m)
       (concat (map tg_lodLevels gl)) 0"
  by (simp add: maxLodVertices_def fold_concat_map)

lemma maxLodVertices_upper:
  assumes "g \<in> set gl" "l \<in> set (tg_lodLevels g)"
  shows "length (tl_indexSet l) \<le> maxLodVertices gl"
proof -
  from assms have "l \<in> set (concat (map tg_lodLevels gl))" by auto
  then show ?thesis
    unfolding maxLodVertices_concat by (rule fold_max_upper)
qed

lemma maxLodVertices_attained:
  "maxLodVertices gl = 0
   \<or> (\<exists>g \<in> set gl. \<exists>l \<in> set (tg_lodLevels g). maxLodVertices gl = length (tl_indexSet l))"
  using fold_max_attained [of "\<lambda>l. length (tl_indexSet l)" "concat (map tg_lodLevels gl)" 0]
  unfolding maxLodVertices_concat by auto

lemma openBuffers_first_split:
  "length (modelVertexBuffers (fst (openBuffers False 0 s))) = length (modelVertexBuffers s) + 1
   \<and> length (modelIndexBuffers (fst (openBuffers False 0 s))) = length (modelIndexBuffers s) + 1
   \<and> vertexBuffer (fst (openBuffers False 0 s)) = Some newVertexBuffer
   \<and> indexBuffer (fst (openBuffers False 0 s)) = Some newIndexBuffer
   \<and> snd (openBuffers False 0 s) = 0"
  by (simp add: openBuffers_def Let_def modelVertexBuffers_def modelIndexBuffers_def
        split: option.splits)

lemma openBuffers_later:
  "vertexBuffer s \<noteq> None \<Longrightarrow> indexBuffer s = Some ib \<Longrightarrow>
   openBuffers uob (Suc i) s = (s, length (indexes ib))"
  by (auto simp: openBuffers_def Let_def)

text \<open>
  C2: \<open>useOneBuffer\<close> is false exactly when the caller asks for split sub-meshes or the
  vertex pool has more than 65535 vertices while the largest LOD vertex set (of any LOD of
  any geometry) has at most 65535. Whenever the geometry loop returns, the model has as many
  index buffers as vertex buffers and one geometry per source geometry, each with one LOD
  level per source LOD. With one buffer, the model has exactly one vertex buffer (none when
  no geometry has a LOD) and every LOD of every geometry refers to buffer 0. Otherwise the
  first LOD of a geometry always opens a new vertex buffer and a new index buffer, the model
  has one pair of buffers per geometry that has a LOD, and all LODs of a geometry refer to
  the pair opened at its first LOD.
\<close>

theorem C2_buffer_policy:
  assumes "exportGeometries H opts nBones vl gl errs = Inr s"
  shows "useOneBuffer opts vl gl
           = (\<not> (splitSubMeshes opts \<or> (length vl > 65535 \<and> maxLodVertices gl \<le> 65535)))
    \<and> (\<forall>g \<in> set gl. \<forall>l \<in> set (tg_lodLevels g). length (tl_indexSet l) \<le> maxLodVertices gl)
    \<and> (maxLodVertices gl = 0
        \<or> (\<exists>g \<in> set gl. \<exists>l \<in> set (tg_lodLevels g). maxLodVertices gl = length (tl_indexSet l)))
    \<and> length (modelIndexBuffers s) = length (modelVertexBuffers s)
    \<and> length (geometries s) = length gl
    \<and> (\<forall>gi < length gl.
          length (lodLevels (geometries s ! gi)) = length (tg_lodLevels (gl ! gi)))
    \<and> (useOneBuffer opts vl gl \<longrightarrow>
         length (modelVertexBuffers s) = (if nonEmpty gl = [] then 0 else 1)
         \<and> (\<forall>g \<in> set (geometries s). \<forall>l \<in> set (lodLevels g).
               lod_vertexBuffer l = 0 \<and> lod_indexBuffer l = 0))
    \<and> (\<not> useOneBuffer opts vl gl \<longrightarrow>
         length (modelVertexBuffers s) = length (nonEmpty gl)
         \<and> (\<forall>gi < length gl. \<forall>l \<in> set (lodLevels (geometries s ! gi)).
               lod_vertexBuffer l = length (nonEmpty (take (Suc gi) gl)) - 1
               \<and> lod_indexBuffer l = length (nonEmpty (take (Suc gi) gl)) - 1)
         \<and> (\<forall>s0. length (modelVertexBuffers (fst (openBuffers False 0 s0)))
                    = length (modelVertexBuffers s0) + 1
                  \<and> length (modelIndexBuffers (fst (openBuffers False 0 s0)))
                    = length (modelIndexBuffers s0) + 1))"
proof -
  let ?uob = "useOneBuffer opts vl gl"
  from assms have "geometriesLoop H opts nBones vl ?uob gl (initialState errs) = Inr s"
    by (simp add: exportGeometries_def)
  from geometriesLoop_allocated [OF this allocated_initial] have al: "allocated ?uob gl s"
    by simp
  have a: "?uob = (\<not> (splitSubMeshes opts \<or> (length vl > 65535 \<and> maxLodVertices gl \<le> 65535)))"
    by (simp add: useOneBuffer_def)
  have b: "\<forall>g \<in> set gl. \<forall>l \<in> set (tg_lodLevels g). length (tl_indexSet l) \<le> maxLodVertices gl"
    using maxLodVertices_upper by blast
  note c = maxLodVertices_attained [of gl]
  from al have d: "length (modelIndexBuffers s) = length (modelVertexBuffers s)"
    and e: "length (geometries s) = length gl"
    by (simp_all add: allocated_def buffersPaired_def)
  from al have e2: "\<forall>gi < length gl.
          length (lodLevels (geometries s ! gi)) = length (tg_lodLevels (gl ! gi))"
    by (simp add: allocated_def)
  have f: "length (modelVertexBuffers s) = (if nonEmpty gl = [] then 0 else 1)
         \<and> (\<forall>g \<in> set (geometries s). \<forall>l \<in> set (lodLevels g).
               lod_vertexBuffer l = 0 \<and> lod_indexBuffer l = 0)" if u: "?uob"
  proof -
    from al u have "length (modelVertexBuffers s) = min 1 (length (nonEmpty gl))"
      by (simp add: allocated_def buffersFor_def)
    then have n: "length (modelVertexBuffers s) = (if nonEmpty gl = [] then 0 else 1)"
      by (auto simp: min_def Suc_le_eq)
    have "lod_vertexBuffer l = 0 \<and> lod_indexBuffer l = 0"
      if "g \<in> set (geometries s)" "l \<in> set (lodLevels g)" for g l
    proof -
      from that(1) e obtain gi where gi: "gi < length gl" "g = geometries s ! gi"
        by (metis in_set_conv_nth)
      with al that(2) u have "lod_vertexBuffer l = min 1 (length (nonEmpty (take (Suc gi) gl))) - 1"
        "lod_indexBuffer l = min 1 (length (nonEmpty (take (Suc gi) gl))) - 1"
        by (simp_all add: allocated_def buffersFor_def)
      then show ?thesis by (simp add: min_def)
    qed
    with n show ?thesis by blast
  qed
  have g: "length (modelVertexBuffers s) = length (nonEmpty gl)
         \<and> (\<forall>gi < length gl. \<forall>l \<in> set (lodLevels (geometries s ! gi)).
               lod_vertexBuffer l = length (nonEmpty (take (Suc gi) gl)) - 1
               \<and> lod_indexBuffer l = length (nonEmpty (take (Suc gi) gl)) - 1)
         \<and> (\<forall>s0. length (modelVertexBuffers (fst (openBuffers False 0 s0)))
                    = length (modelVertexBuffers s0) + 1
                  \<and> length (modelIndexBuffers (fst (openBuffers False 0 s0)))
                    = length (modelIndexBuffers s0) + 1)" if u: "\<not> ?uob"
    using al u openBuffers_first_split by (simp add: allocated_def buffersFor_def)
  from a b c d e e2 f g show ?thesis
    by blast
qed

lemmas ev_defs =
    exportGeometries_def useOneBuffer_def maxLodVertices_def defaultOptions_def
    tetraVertices_def tetraGeometry_def triGeometry_def bigPool_def
    geometryStep_def lodLevelStep_def openBuffers_def initialState_def addVertex_def UrhoVertex_init_def
    initMask_def initFields_def initFieldsF_def initWeightsF_def constructed_def vertex_hash_def placeVertex_def mergePosition_def merge_def
    modelVertexBuffers_def modelIndexBuffers_def newVertexBuffer_def newIndexBuffer_def newGeometry_def
    addIndex_def geometryCenter_def remapBones_def tvertex_def truthy_def intHash_def MAX_SKIN_MATRICES_def
    ELEMENT_POSITION_def AlmostEqual_def FloatListAlmostEqual_def EPSILON_def Let_def TRIANGLE_LIST_def nth_append

lemma export_bigPool: "\<exists>s. exportGeometries intHash defaultOptions 0 bigPool [tetraGeometry, triGeometry] {} = Inr s"
  by (simp add: ev_defs)

lemma export_tetra: "\<exists>s. exportGeometries intHash defaultOptions 0 tetraVertices [tetraGeometry, triGeometry] {} = Inr s"
  by (simp add: ev_defs)

lemma useOneBuffer_bigPool: "useOneBuffer defaultOptions bigPool [tetraGeometry, triGeometry] = False"
  by (simp add: useOneBuffer_def maxLodVertices_def defaultOptions_def tetraVertices_def tetraGeometry_def triGeometry_def bigPool_def)

lemma useOneBuffer_tetra: "useOneBuffer defaultOptions tetraVertices [tetraGeometry, triGeometry] = True"
  by (simp add: useOneBuffer_def maxLodVertices_def defaultOptions_def tetraVertices_def tetraGeometry_def triGeometry_def bigPool_def)

lemma nonEmpty_examples: "nonEmpty [tetraGeometry, triGeometry] = [tetraGeometry, triGeometry]"
  "nonEmpty (take (Suc 0) [tetraGeometry, triGeometry]) = [tetraGeometry]"
  "nonEmpty (take (Suc (Suc 0)) [tetraGeometry, triGeometry]) = [tetraGeometry, triGeometry]"
  by (simp_all add: nonEmpty_def tetraGeometry_def triGeometry_def)

theorem C2_buffer_policy_witness:
  "length bigPool = 65536
   \<and> maxLodVertices [tetraGeometry, triGeometry] = 4
   \<and> useOneBuffer defaultOptions bigPool [tetraGeometry, triGeometry] = False
   \<and> (\<exists>s. exportGeometries intHash defaultOptions 0 bigPool [tetraGeometry, triGeometry] {} = Inr s
         \<and> length (modelVertexBuffers s) = 2 \<and> length (modelIndexBuffers s) = 2
         \<and> (\<forall>l \<in> set (lodLevels (geometries s ! 0)). lod_vertexBuffer l = 0 \<and> lod_indexBuffer l = 0)
         \<and> (\<forall>l \<in> set (lodLevels (geometries s ! 1)). lod_vertexBuffer l = 1 \<and> lod_indexBuffer l = 1)
         \<and> length (lodLevels (geometries s ! 1)) = 2)
   \<and> useOneBuffer defaultOptions tetraVertices [tetraGeometry, triGeometry] = True
   \<and> (\<exists>s. exportGeometries intHash defaultOptions 0 tetraVertices [tetraGeometry, triGeometry] {} = Inr s
         \<and> length (modelVertexBuffers s) = 1 \<and> length (modelIndexBuffers s) = 1
         \<and> (\<forall>g \<in> set (geometries s). \<forall>l \<in> set (lodLevels g).
               lod_vertexBuffer l = 0 \<and> lod_indexBuffer l = 0))"
proof -
  have a: "length bigPool = 65536" "maxLodVertices [tetraGeometry, triGeometry] = 4"
    by (simp_all add: bigPool_def tetraVertices_def maxLodVertices_def tetraGeometry_def triGeometry_def)
  from export_bigPool obtain s1 where
    h1: "exportGeometries intHash defaultOptions 0 bigPool [tetraGeometry, triGeometry] {} = Inr s1"
    by blast
  from export_tetra obtain s2 where
    h2: "exportGeometries intHash defaultOptions 0 tetraVertices [tetraGeometry, triGeometry] {} = Inr s2"
    by blast
  have l: "length [tetraGeometry, triGeometry] = 2" "[tetraGeometry, triGeometry] ! 1 = triGeometry"
    "length (tg_lodLevels triGeometry) = 2"
    by (simp_all add: triGeometry_def)
  from C2_buffer_policy [OF h1] useOneBuffer_bigPool nonEmpty_examples l
  have p1: "length (modelVertexBuffers s1) = 2 \<and> length (modelIndexBuffers s1) = 2
         \<and> (\<forall>l \<in> set (lodLevels (geometries s1 ! 0)). lod_vertexBuffer l = 0 \<and> lod_indexBuffer l = 0)
         \<and> (\<forall>l \<in> set (lodLevels (geometries s1 ! 1)). lod_vertexBuffer l = 1 \<and> lod_indexBuffer l = 1)
         \<and> length (lodLevels (geometries s1 ! 1)) = 2"
    by (simp add: numeral_2_eq_2 All_less_Suc)
  from C2_buffer_policy [OF h2] useOneBuffer_tetra nonEmpty_examples
  have p2: "length (modelVertexBuffers s2) = 1 \<and> length (modelIndexBuffers s2) = 1
         \<and> (\<forall>g \<in> set (geometries s2). \<forall>l \<in> set (lodLevels g).
               lod_vertexBuffer l = 0 \<and> lod_indexBuffer l = 0)"
    by (simp add: All_less_Suc)
  from a useOneBuffer_bigPool useOneBuffer_tetra h1 p1 h2 p2 show ?thesis
    by blast
qed

section \<open>The geometry center\<close>

lemma addIndex_first_lod:
  assumes "addIndex st vb im 0 t (idxs, cc, c) = Inr (idxs', cc', c')"
    and "elementMask vb = Some m" and "m AND ELEMENT_POSITION \<noteq> 0"
  shows "\<exists>k. im t = Some k \<and> idxs' = idxs @ [k] \<and> cc' = Suc cc
           \<and> c' = vadd c (vertexPosition st vb k)"
  using assms
  by (auto simp: addIndex_def vertexPosition_def vadd_def split: option.splits)

lemma addIndices_first_lod:
  assumes "addIndices st vb im 0 ts (idxs, cc, c) = Inr (idxs', cc', c')"
    and "elementMask vb = Some m" and "m AND ELEMENT_POSITION \<noteq> 0"
  shows "\<exists>ks. map im ts = map Some ks \<and> idxs' = idxs @ ks \<and> cc' = cc + length ts
           \<and> c' = foldl vadd c (map (vertexPosition st vb) ks)"
  using assms(1)
proof (induction ts arbitrary: idxs cc c)
  case Nil
  then show ?case by simp
next
  case (Cons t ts)
  from Cons.prems obtain i1 cc1 c1 where
    a: "addIndex st vb im 0 t (idxs, cc, c) = Inr (i1, cc1, c1)"
    and r: "addIndices st vb im 0 ts (i1, cc1, c1) = Inr (idxs', cc', c')"
    by (auto split: sum.splits)
  from addIndex_first_lod [OF a assms(2) assms(3)] obtain k where
    k: "im t = Some k" "i1 = idxs @ [k]" "cc1 = Suc cc" "c1 = vadd c (vertexPosition st vb k)"
    by blast
  from Cons.IH [OF r] obtain ks where
    ks: "map im ts = map Some ks" "idxs' = i1 @ ks" "cc' = cc1 + length ts"
      "c' = foldl vadd c1 (map (vertexPosition st vb) ks)"
    by blast
  from k ks have "map im (t # ts) = map Some (k # ks) \<and> idxs' = idxs @ (k # ks)
     \<and> cc' = cc + length (t # ts) \<and> c' = foldl vadd c (map (vertexPosition st vb) (k # ks))"
    by simp
  then show ?case by blast
qed

lemma addIndices_indexes:
  assumes "addIndices st vb im i ts (idxs, cc, c) = Inr (idxs', cc', c')"
  shows "\<exists>ks. map im ts = map Some ks \<and> idxs' = idxs @ ks"
  using assms
proof (induction ts arbitrary: idxs cc c)
  case Nil
  then show ?case by simp
next
  case (Cons t ts)
  from Cons.prems obtain i1 cc1 c1 where
    a: "addIndex st vb im i t (idxs, cc, c) = Inr (i1, cc1, c1)"
    and r: "addIndices st vb im i ts (i1, cc1, c1) = Inr (idxs', cc', c')"
    by (auto split: sum.splits)
  from a obtain k where k: "im t = Some k" "i1 = idxs @ [k]"
    by (auto simp: addIndex_def split: option.splits if_splits)
  from Cons.IH [OF r] obtain ks where ks: "map im ts = map Some ks" "idxs' = i1 @ ks"
    by blast
  from k ks have "map im (t # ts) = map Some (k # ks) \<and> idxs' = idxs @ (k # ks)"
    by simp
  then show ?case by blast
qed

lemma foldl_vadd:
  assumes "length c = 3" and "\<forall>p \<in> set ps. length p = 3"
  shows "length (foldl vadd c ps) = 3
         \<and> (\<forall>j < 3. foldl vadd c ps ! j = c ! j + (\<Sum>p\<leftarrow>ps. p ! j))"
  using assms
proof (induction ps arbitrary: c)
  case Nil
  then show ?case by simp
next
  case (Cons p ps)
  from Cons.prems have l: "length (vadd c p) = 3" and n: "\<forall>j < 3. vadd c p ! j = c ! j + p ! j"
    by (simp_all add: vadd_def)
  from Cons.prems have "\<forall>p \<in> set ps. length p = 3" by simp
  from Cons.IH [OF l this] n show ?case by (simp add: add.assoc)
qed

lemma geometryCenter_mean:
  assumes "\<forall>p \<in> set ps. length p = 3" and "ps \<noteq> []" and "j < 3"
  shows "geometryCenter 0 (length ps) (foldl vadd [0, 0, 0] ps) old ! j
         = (\<Sum>p\<leftarrow>ps. p ! j) / real (length ps)"
proof -
  have l: "length [0, 0, 0 :: real] = 3" by simp
  note f = foldl_vadd [OF l assms(1)]
  have z: "[0, 0, 0 :: real] ! j = 0"
    using assms(3) by (cases j rule: less_Suc_eq [THEN iffD1, THEN disjE]) (auto simp: less_Suc_eq numeral_3_eq_3)
  from f assms(2) assms(3) z show ?thesis
    by (simp add: geometryCenter_def)
qed

lemma remapVertices_pos:
  assumes "remapVertices as (st, bm) = (st', bm')"
  shows "length st' = length st \<and> (\<forall>a. pos (st' ! a) = pos (st ! a))"
  using assms
proof (induction as arbitrary: st bm)
  case Nil
  then show ?case by simp
next
  case (Cons b as)
  let ?st1 = "st[b := (st ! b)\<lparr>weights := snd (remapWeights bm (weights (st ! b)))\<rparr>]"
  from Cons.prems have
    r: "remapVertices as (?st1, fst (remapWeights bm (weights (st ! b)))) = (st', bm')"
    by (simp add: Let_def)
  have "pos (?st1 ! a) = pos (st ! a)" for a
  proof (cases "a = b \<and> b < length st")
    case True
    then show ?thesis by simp
  next
    case False
    then show ?thesis
      by (cases "b < length st") (auto simp: nth_list_update list_update_beyond)
  qed
  with Cons.IH [OF r] show ?case by simp
qed

lemma remapBones_pos:
  assumes "remapBones nBones vb (st, bm) = Inr (st', bm')"
  shows "\<forall>a. pos (st' ! a) = pos (st ! a)"
  using assms remapVertices_pos
  by (auto simp: remapBones_def split: if_splits option.splits)

lemma vertexPosition_cong:
  "\<forall>a. pos (st' ! a) = pos (st ! a) \<Longrightarrow> vertexPosition st' vb k = vertexPosition st vb k"
  by (simp add: vertexPosition_def)

lemma openBuffers_start:
  assumes "openBuffers uob i s = (s2, start)"
  shows "\<exists>ib. indexBuffer s2 = Some ib \<and> start = length (indexes ib)"
  using assms
  by (auto simp: openBuffers_def Let_def newIndexBuffer_def split: if_splits)

lemma lodLevelStep_Inr:
  assumes "lodLevelStep H opts nBones vl uob i tLod (s, g, c) = Inr (s', g', c')"
  shows "\<exists>s2 start s3 im w vb ib0 idxs cc st bm.
           openBuffers uob i s = (s2, start)
           \<and> addVertices H opts vl i (tl_indexSet tLod) (s2, Map.empty, False) = Inr (s3, im, w)
           \<and> vertexBuffer s3 = Some vb \<and> indexBuffer s3 = Some ib0
           \<and> addIndices (store s3) vb im i (concat (tl_triangleList tLod)) (indexes ib0, 0, c)
               = Inr (idxs, cc, c')
           \<and> remapBones nBones vb (store s3, boneMap g) = Inr (st, bm)
           \<and> store s' = st \<and> vertexBuffer s' = Some vb
           \<and> indexBuffer s' = Some (ib0\<lparr>indexes := idxs\<rparr>)
           \<and> boneMap g' = bm
           \<and> center g' = geometryCenter i cc c' (center g)
           \<and> (\<exists>lod. lodLevels g' = lodLevels g @ [lod] \<and> lod_startIndex lod = start
                 \<and> lod_countIndex lod = length (tl_triangleList tLod) * 3)"
  using assms
  by (cases "openBuffers uob i s")
     (auto simp: lodLevelStep_def Let_def split: sum.splits option.splits prod.splits)

lemma lodLevelStep_center:
  assumes step: "lodLevelStep H opts nBones vl uob 0 tLod (s, g, [0, 0, 0]) = Inr (s', g', c')"
    and vb: "vertexBuffer s' = Some vb" and ib: "indexBuffer s' = Some ib"
    and m: "elementMask vb = Some m" "m AND ELEMENT_POSITION \<noteq> 0"
    and ne: "concat (tl_triangleList tLod) \<noteq> []"
    and len: "\<forall>k \<in> set (drop (lod_startIndex (last (lodLevels g'))) (indexes ib)).
                length (vertexPosition (store s') vb k) = 3"
    and j: "j < 3"
  shows "length (drop (lod_startIndex (last (lodLevels g'))) (indexes ib))
           = length (concat (tl_triangleList tLod))
       \<and> center g' ! j =
           (\<Sum>k\<leftarrow>drop (lod_startIndex (last (lodLevels g'))) (indexes ib).
               vertexPosition (store s') vb k ! j)
           / real (length (concat (tl_triangleList tLod)))"
proof -
  from lodLevelStep_Inr [OF step] obtain s2 start s3 im w vb0 ib0 idxs cc st bm lod where
    o: "openBuffers uob 0 s = (s2, start)"
    and v: "addVertices H opts vl 0 (tl_indexSet tLod) (s2, Map.empty, False) = Inr (s3, im, w)"
    and b: "vertexBuffer s3 = Some vb0" "indexBuffer s3 = Some ib0"
    and a: "addIndices (store s3) vb0 im 0 (concat (tl_triangleList tLod))
              (indexes ib0, 0, [0, 0, 0]) = Inr (idxs, cc, c')"
    and r: "remapBones nBones vb0 (store s3, boneMap g) = Inr (st, bm)"
    and e: "store s' = st" "vertexBuffer s' = Some vb0"
      "indexBuffer s' = Some (ib0\<lparr>indexes := idxs\<rparr>)"
      "center g' = geometryCenter 0 cc c' (center g)"
    and l: "lodLevels g' = lodLevels g @ [lod]" "lod_startIndex lod = start"
    by blast
  from e(2) vb have vb0: "vb0 = vb" by simp
  from e(3) ib have ibeq: "indexes ib = idxs" by auto
  from openBuffers_start [OF o] addVertices_frame [OF v] b(2)
  have st: "start = length (indexes ib0)" by auto
  from addIndices_first_lod [OF a [unfolded vb0] m] obtain ks where
    ks: "idxs = indexes ib0 @ ks" "cc = 0 + length (concat (tl_triangleList tLod))"
      "c' = foldl vadd [0, 0, 0] (map (vertexPosition (store s3) vb) ks)"
      "map im (concat (tl_triangleList tLod)) = map Some ks"
    by blast
  from ks(4) have lk: "length ks = length (concat (tl_triangleList tLod))"
    by (metis length_map)
  have d: "drop (lod_startIndex (last (lodLevels g'))) (indexes ib) = ks"
    using l st ibeq ks(1) by simp
  have p: "vertexPosition (store s') vb k = vertexPosition (store s3) vb k" for k
    using remapBones_pos [OF r] e(1) by (intro vertexPosition_cong) simp
  let ?ps = "map (vertexPosition (store s3) vb) ks"
  from len have "\<forall>p \<in> set ?ps. length p = 3"
    unfolding d p by simp
  moreover from ne lk have "?ps \<noteq> []" by auto
  ultimately have "geometryCenter 0 (length ?ps) (foldl vadd [0, 0, 0] ?ps) (center g) ! j
         = (\<Sum>p\<leftarrow>?ps. p ! j) / real (length ?ps)"
    using j by (rule geometryCenter_mean)
  with e(4) ks(2) ks(3) lk have "center g' ! j
         = (\<Sum>k\<leftarrow>ks. vertexPosition (store s3) vb k ! j) / real (length (concat (tl_triangleList tLod)))"
    by (simp add: comp_def)
  with d lk show ?thesis
    by (simp add: p)
qed

lemma lodLevelStep_later_center:
  assumes "lodLevelStep H opts nBones vl uob (Suc i) tLod (s, g, c) = Inr (s', g', c')"
  shows "center g' = center g"
  using lodLevelStep_Inr [OF assms] by (auto simp: geometryCenter_def)

text \<open>
  C9, as the claim states it, fails: the geometry that draws two faces of the tetrahedron
  has a position channel and a non-empty triangle list, the vertices of its LOD0 are the four
  corners with centroid \<open>(1/4, 1/4, 1/4)\<close>, and its center is \<open>(1/6, 1/3, 1/6)\<close>: the
  corners 0 and 2 belong to both triangles and count twice.
\<close>

theorem C9_center_counterexample:
  "exportedMasks (exportGeometries intHash defaultOptions 0 tetraVertices [tetraGeometry] {})
     = [Some ELEMENT_POSITION]
   \<and> exportedPositions (exportGeometries intHash defaultOptions 0 tetraVertices [tetraGeometry] {})
     = [[[0, 0, 0], [1, 0, 0], [0, 1, 0], [0, 0, 1]]]
   \<and> exportedIndexes (exportGeometries intHash defaultOptions 0 tetraVertices [tetraGeometry] {})
     = [[0, 1, 2, 0, 2, 3]]
   \<and> exportedCenters (exportGeometries intHash defaultOptions 0 tetraVertices [tetraGeometry] {})
     = [[1 / 6, 1 / 3, 1 / 6]]
   \<and> centroid [[0, 0, 0], [1, 0, 0], [0, 1, 0], [0, 0, 1]] = [1 / 4, 1 / 4, 1 / 4]"
  by (simp add: ev_defs exportedCenters_def exportedMasks_def exportedPositions_def
        exportedIndexes_def centroid_def vertexPosition_def upt_rec)

lemma tetra_step:
  "\<exists>s' g' c' vb ib.
     lodLevelStep intHash defaultOptions 0 tetraVertices True 0 (hd (tg_lodLevels tetraGeometry))
       (initialState {}, newGeometry, [0, 0, 0]) = Inr (s', g', c')
     \<and> vertexBuffer s' = Some vb \<and> indexBuffer s' = Some ib
     \<and> elementMask vb = Some 1
     \<and> lod_startIndex (last (lodLevels g')) = 0
     \<and> indexes ib = [0, 1, 2, 0, 2, 3]
     \<and> map (vertexPosition (store s') vb) [0, 1, 2, 3] = [[0, 0, 0], [1, 0, 0], [0, 1, 0], [0, 0, 1]]"
  by (simp add: ev_defs vertexPosition_def)

text \<open>
  C9 (amended): for the first LOD of a geometry, when the vertex buffer has a position
  channel and the triangle list has at least one corner, the center of the geometry is the
  mean of the positions of the buffer vertices that the LOD's indices refer to, one term for
  every index that the LOD added to the index buffer (a vertex counts once for every
  triangle corner that refers to it); the later LODs leave the center as it is.
\<close>

theorem C9_center_is_mean_of_triangle_corners:
  assumes "lodLevelStep H opts nBones vl uob 0 tLod (s, g, [0, 0, 0]) = Inr (s', g', c')"
    and "vertexBuffer s' = Some vb" and "indexBuffer s' = Some ib"
    and "elementMask vb = Some m" and "m AND ELEMENT_POSITION \<noteq> 0"
    and "concat (tl_triangleList tLod) \<noteq> []"
    and "\<forall>k \<in> set (drop (lod_startIndex (last (lodLevels g'))) (indexes ib)).
           length (vertexPosition (store s') vb k) = 3"
    and "j < 3"
  shows "length (drop (lod_startIndex (last (lodLevels g'))) (indexes ib))
           = length (concat (tl_triangleList tLod))
       \<and> center g' ! j =
           (\<Sum>k\<leftarrow>drop (lod_startIndex (last (lodLevels g'))) (indexes ib).
               vertexPosition (store s') vb k ! j)
           / real (length (concat (tl_triangleList tLod)))
       \<and> (\<forall>i1 tL s1 g1 c1 s2 g2 c2.
            lodLevelStep H opts nBones vl uob (Suc i1) tL (s1, g1, c1) = Inr (s2, g2, c2)
            \<longrightarrow> center g2 = center g1)"
  using lodLevelStep_center [OF assms] lodLevelStep_later_center by blast

theorem C9_center_is_mean_of_triangle_corners_witness:
  "\<exists>s' g' c'.
     lodLevelStep intHash defaultOptions 0 tetraVertices True 0 (hd (tg_lodLevels tetraGeometry))
       (initialState {}, newGeometry, [0, 0, 0]) = Inr (s', g', c')
     \<and> center g' ! 0 = (0 + 1 + 0 + 0 + 0 + 0) / 6
     \<and> center g' ! 1 = (0 + 0 + 1 + 0 + 1 + 0) / 6
     \<and> center g' ! 2 = (0 + 0 + 0 + 0 + 0 + 1) / 6"
proof -
  from tetra_step obtain s' g' c' vb ib where
    h: "lodLevelStep intHash defaultOptions 0 tetraVertices True 0
          (hd (tg_lodLevels tetraGeometry)) (initialState {}, newGeometry, [0, 0, 0])
        = Inr (s', g', c')"
      "vertexBuffer s' = Some vb" "indexBuffer s' = Some ib" "elementMask vb = Some 1"
    and i: "lod_startIndex (last (lodLevels g')) = 0" "indexes ib = [0, 1, 2, 0, 2, 3]"
    and p: "map (vertexPosition (store s') vb) [0, 1, 2, 3]
            = [[0, 0, 0], [1, 0, 0], [0, 1, 0], [0, 0, 1]]"
    by (elim exE conjE) (rule that; assumption)
  have m: "(1 :: nat) AND ELEMENT_POSITION \<noteq> 0"
    by (simp add: ELEMENT_POSITION_def)
  have ne: "concat (tl_triangleList (hd (tg_lodLevels tetraGeometry))) \<noteq> []"
    and n: "length (concat (tl_triangleList (hd (tg_lodLevels tetraGeometry)))) = 6"
    by (simp_all add: tetraGeometry_def)
  from p have q: "vertexPosition (store s') vb 0 = [0, 0, 0]"
    "vertexPosition (store s') vb (Suc 0) = [1, 0, 0]"
    "vertexPosition (store s') vb 2 = [0, 1, 0]" "vertexPosition (store s') vb 3 = [0, 0, 1]"
    by simp_all
  have len: "\<forall>k \<in> set (drop (lod_startIndex (last (lodLevels g'))) (indexes ib)).
           length (vertexPosition (store s') vb k) = 3"
    using i q by simp
  note t = C9_center_is_mean_of_triangle_corners [OF h m ne len]
  from t [of 0] t [of 1] t [of 2] i q n
  have "center g' ! 0 = (0 + 1 + 0 + 0 + 0 + 0) / 6
     \<and> center g' ! 1 = (0 + 0 + 1 + 0 + 1 + 0) / 6
     \<and> center g' ! 2 = (0 + 0 + 0 + 0 + 0 + 1) / 6"
    by simp
  with h(1) show ?thesis
    by blast
qed

end
